theory Spec2Isabelle
  imports Main "HOL-Library.Sublist"
begin

section \<open>JavaScript strings\<close>

text \<open>
  A string is the list of its code units. \<^typ>\<open>char\<close> has 256 values, so the model covers
  texts whose code units are below 256. The operations below are the methods of
  \<^verbatim>\<open>String.prototype\<close> and \<^verbatim>\<open>Array.prototype\<close> that
  \<^verbatim>\<open>GardenPageCompiler.ts\<close> calls, with the receiver as first argument.
\<close>

definition bslash :: char where
  "bslash = CHR 0x5C"

definition js_startsWith :: "string \<Rightarrow> string \<Rightarrow> bool" where
  "js_startsWith s p = prefix p s"

definition js_endsWith :: "string \<Rightarrow> string \<Rightarrow> bool" where
  "js_endsWith s p = suffix p s"

text \<open>\<^verbatim>\<open>s.indexOf(pat)\<close>: the first index at which \<open>pat\<close> occurs, or -1.\<close>

fun js_indexOf :: "string \<Rightarrow> string \<Rightarrow> int" where
  "js_indexOf [] pat = (if pat = [] then 0 else - 1)"
| "js_indexOf (c # cs) pat =
     (if prefix pat (c # cs) then 0
      else (let i = js_indexOf cs pat in if i < 0 then - 1 else i + 1))"

text \<open>\<^verbatim>\<open>s.lastIndexOf(pat)\<close>: the last index at which \<open>pat\<close> occurs, or -1.\<close>

fun js_lastIndexOf :: "string \<Rightarrow> string \<Rightarrow> int" where
  "js_lastIndexOf [] pat = (if pat = [] then 0 else - 1)"
| "js_lastIndexOf (c # cs) pat =
     (let i = js_lastIndexOf cs pat
      in if 0 \<le> i then i + 1 else if prefix pat (c # cs) then 0 else - 1)"

definition js_includes :: "string \<Rightarrow> string \<Rightarrow> bool" where
  "js_includes s pat = (0 \<le> js_indexOf s pat)"

text \<open>
  \<^verbatim>\<open>s.substring(a, b)\<close>: both indices are clamped to \<open>0..length s\<close> and swapped
  when \<open>a > b\<close>.
\<close>

definition js_substring :: "string \<Rightarrow> int \<Rightarrow> int \<Rightarrow> string" where
  "js_substring s a b =
     (let n = int (length s);
          a' = max 0 (min a n);
          b' = max 0 (min b n);
          lo = min a' b';
          hi = max a' b'
      in take (nat (hi - lo)) (drop (nat lo) s))"

lemma js_indexOf_nonempty: "0 \<le> js_indexOf s sep \<Longrightarrow> sep \<noteq> [] \<Longrightarrow> s \<noteq> []"
  by (cases s) auto

text \<open>
  \<^verbatim>\<open>s.split(sep)\<close> for a separator that is not empty (the source splits on
  \<^verbatim>\<open>"|"\<close>, \<^verbatim>\<open>"#"\<close>, \<^verbatim>\<open>"#^"\<close> and the newline only). The result
  always has a first element.
\<close>

function js_split :: "string \<Rightarrow> string \<Rightarrow> string list" where
  "js_split s sep =
     (if sep = [] then [s]
      else (let i = js_indexOf s sep
            in if i < 0 then [s]
               else take (nat i) s # js_split (drop (nat i + length sep) s) sep))"
  by pat_completeness auto
termination
proof (relation "measure (\<lambda>(s, sep). length s)", goal_cases)
  case 1
  show ?case by simp
next
  case (2 s sep i)
  then have "s \<noteq> []" using js_indexOf_nonempty [of s sep] by simp
  with 2 show ?case by (cases sep) auto
qed

declare js_split.simps [simp del]

text \<open>\<^verbatim>\<open>xs.join(sep)\<close>.\<close>

fun js_join :: "string list \<Rightarrow> string \<Rightarrow> string" where
  "js_join [] sep = []"
| "js_join [x] sep = x"
| "js_join (x # y # ys) sep = x @ sep @ js_join (y # ys) sep"

text \<open>
  \<^verbatim>\<open>xs.slice(a, b)\<close> and \<^verbatim>\<open>xs.slice(a)\<close> for indices that are not negative
  (line numbers of the metadata cache): an end before the start gives the empty array.
\<close>

definition js_slice :: "'a list \<Rightarrow> nat \<Rightarrow> nat option \<Rightarrow> 'a list" where
  "js_slice xs a b = (case b of None \<Rightarrow> drop a xs | Some e \<Rightarrow> take (e - a) (drop a xs))"

text \<open>
  The replacement text of \<^verbatim>\<open>s.replace(pat, repl)\<close> for a string pattern
  (ECMAScript's GetSubstitution with no captures): \<^verbatim>\<open>$$\<close> is a dollar sign,
  \<^verbatim>\<open>$&\<close> the matched text, \<^verbatim>\<open>$`\<close> the text before the match,
  \<^verbatim>\<open>$'\<close> the text after it; every other character stands for itself.
\<close>

fun GetSubstitution :: "string \<Rightarrow> string \<Rightarrow> string \<Rightarrow> string \<Rightarrow> string" where
  "GetSubstitution [] matched preceding following = []"
| "GetSubstitution [c] matched preceding following = [c]"
| "GetSubstitution (c # d # r) matched preceding following =
     (if c = CHR ''$'' \<and> d = CHR ''$'' then CHR ''$'' # GetSubstitution r matched preceding following
      else if c = CHR ''$'' \<and> d = CHR ''&'' then matched @ GetSubstitution r matched preceding following
      else if c = CHR ''$'' \<and> d = CHR ''`'' then preceding @ GetSubstitution r matched preceding following
      else if c = CHR ''$'' \<and> d = CHR 0x27 then following @ GetSubstitution r matched preceding following
      else c # GetSubstitution (d # r) matched preceding following)"

text \<open>
  \<^verbatim>\<open>s.replace(pat, repl)\<close> with a string pattern: only the first occurrence of
  \<open>pat\<close> is replaced.
\<close>

definition js_replace :: "string \<Rightarrow> string \<Rightarrow> string \<Rightarrow> string" where
  "js_replace s pat repl =
     (let i = js_indexOf s pat
      in if i < 0 then s
         else (let preceding = take (nat i) s;
                   following = drop (nat i + length pat) s
               in preceding @ GetSubstitution repl pat preceding following @ following))"

section \<open>Regular expressions\<close>

text \<open>
  The regular expressions of the source are values of \<open>rx\<close>; \<open>ms\<close> is the backtracking
  matcher of ECMAScript: it lists the states in which a match of the expression can end, in
  the order in which the matcher tries them, so the head of the list is the match that
  \<^verbatim>\<open>exec\<close> returns. \<open>Star True\<close> and \<open>Plus True\<close> are the greedy quantifiers,
  \<open>Star False\<close> and \<open>Plus False\<close> the lazy ones (\<^verbatim>\<open>*?\<close>, \<^verbatim>\<open>+?\<close>);
  an iteration of a quantifier that consumes nothing is rejected, as in ECMAScript.
  \<open>Bol\<close> and \<open>Eol\<close> are \<^verbatim>\<open>^\<close> and \<^verbatim>\<open>$\<close> without the \<^verbatim>\<open>m\<close> flag.
  A state is the code unit before the position (none at the start of the input), the rest
  of the input and the captures so far.
\<close>

datatype rx =
    Chr char
  | In "char list"
  | NotIn "char list"
  | AnyChar
  | Eps
  | Bol
  | Eol
  | Seq rx rx
  | Alt rx rx
  | Star bool rx
  | Plus bool rx
  | Group nat rx

type_synonym captures = "(nat \<times> string) list"
type_synonym mstate = "char option \<times> string \<times> captures"

fun one_char :: "(char \<Rightarrow> bool) \<Rightarrow> mstate \<Rightarrow> mstate list" where
  "one_char P (p, [], g) = []"
| "one_char P (p, x # xs, g) = (if P x then [(Some x, xs, g)] else [])"

definition remaining :: "mstate \<Rightarrow> nat" where
  "remaining st = length (fst (snd st))"

definition consumed :: "mstate \<Rightarrow> mstate \<Rightarrow> string" where
  "consumed st st' = take (remaining st - remaining st') (fst (snd st))"

definition set_group :: "nat \<Rightarrow> mstate \<Rightarrow> mstate \<Rightarrow> mstate" where
  "set_group n st st' = (fst st', fst (snd st'), (n, consumed st st') # snd (snd st'))"

fun rx_weight :: "rx \<Rightarrow> nat" where
  "rx_weight (Seq a b) = Suc (rx_weight a + rx_weight b)"
| "rx_weight (Alt a b) = Suc (rx_weight a + rx_weight b)"
| "rx_weight (Star gr r) = Suc (rx_weight r)"
| "rx_weight (Plus gr r) = Suc (Suc (rx_weight r))"
| "rx_weight (Group n r) = Suc (rx_weight r)"
| "rx_weight r = 0"

function (sequential) ms :: "rx \<Rightarrow> mstate \<Rightarrow> mstate list" where
  "ms (Chr c) st = one_char (\<lambda>x. x = c) st"
| "ms (In cs) st = one_char (\<lambda>x. x \<in> set cs) st"
| "ms (NotIn cs) st = one_char (\<lambda>x. x \<notin> set cs) st"
| "ms AnyChar st = one_char (\<lambda>x. True) st"
| "ms Eps st = [st]"
| "ms Bol st = (if fst st = None then [st] else [])"
| "ms Eol st = (if fst (snd st) = [] then [st] else [])"
| "ms (Seq a b) st = concat (map (ms b) (ms a st))"
| "ms (Alt a b) st = ms a st @ ms b st"
| "ms (Star True r) st =
     concat (map (\<lambda>st'. if remaining st' < remaining st then ms (Star True r) st' else [])
                 (ms r st)) @ [st]"
| "ms (Star False r) st =
     st # concat (map (\<lambda>st'. if remaining st' < remaining st then ms (Star False r) st' else [])
                      (ms r st))"
| "ms (Plus gr r) st = concat (map (ms (Star gr r)) (ms r st))"
| "ms (Group n r) st = map (set_group n st) (ms r st)"
  by pat_completeness auto
termination
  by (relation "measures [\<lambda>(r, st). rx_weight r, \<lambda>(r, st). remaining st]") auto

text \<open>A literal string, a sequence and an alternative of several expressions.\<close>

fun lit :: "string \<Rightarrow> rx" where
  "lit [] = Eps"
| "lit [c] = Chr c"
| "lit (c # cs) = Seq (Chr c) (lit cs)"

fun seqs :: "rx list \<Rightarrow> rx" where
  "seqs [] = Eps"
| "seqs [r] = r"
| "seqs (r # rs) = Seq r (seqs rs)"

fun alts :: "rx list \<Rightarrow> rx" where
  "alts [] = In []"
| "alts [r] = r"
| "alts (r # rs) = Alt r (alts rs)"

text \<open>
  The character classes \<^verbatim>\<open>\w\<close>, \<^verbatim>\<open>\d\<close> and \<^verbatim>\<open>\s\<close>, and the
  line terminators that \<^verbatim>\<open>.\<close> does not match without the \<^verbatim>\<open>s\<close> flag.
\<close>

definition word_chars :: "char list" where
  "word_chars = ''abcdefghijklmnopqrstuvwxyzABCDEFGHIJKLMNOPQRSTUVWXYZ0123456789_''"

definition digit_chars :: "char list" where
  "digit_chars = ''0123456789''"

definition space_chars :: "char list" where
  "space_chars = [CHR 0x09, CHR 0x0A, CHR 0x0B, CHR 0x0C, CHR 0x0D, CHR 0x20, CHR 0xA0]"

definition dot :: rx where
  "dot = NotIn [CHR 0x0A, CHR 0x0D]"

text \<open>
  \<open>rx_exec r p s\<close>: the match of \<open>r\<close> that starts at the beginning of \<open>s\<close>, with its
  captures, if there is one.
\<close>

definition rx_exec :: "rx \<Rightarrow> char option \<Rightarrow> string \<Rightarrow> (string \<times> captures) option" where
  "rx_exec r p s =
     (case ms r (p, s, []) of
        [] \<Rightarrow> None
      | st' # _ \<Rightarrow> Some (consumed (p, s, []) st', snd (snd st')))"

lemma rx_exec_take: "rx_exec r p s = Some (m, g) \<Longrightarrow> m = take (length m) s"
  by (auto simp: rx_exec_def consumed_def min_def split: list.splits)

text \<open>
  The matches of a regular expression with the \<^verbatim>\<open>g\<close> flag, from left to right: the
  search resumes where the last match ended, one code unit further after an empty match.
  \<open>rx_pieces\<close> cuts the text into its matches and the code units between them.
\<close>

datatype piece = Lit char | Match string captures

function rx_pieces :: "rx \<Rightarrow> char option \<Rightarrow> string \<Rightarrow> piece list" where
  "rx_pieces r p s =
     (case rx_exec r p s of
        None \<Rightarrow> (case s of [] \<Rightarrow> [] | c # cs \<Rightarrow> Lit c # rx_pieces r (Some c) cs)
      | Some (m, g) \<Rightarrow>
          if m = [] then
            Match [] g # (case s of [] \<Rightarrow> [] | c # cs \<Rightarrow> Lit c # rx_pieces r (Some c) cs)
          else Match m g # rx_pieces r (Some (last m)) (drop (length m) s))"
  by pat_completeness auto
termination
proof (relation "measure (\<lambda>(r, p, s). length s)", goal_cases)
  case (4 r p s x2 m g)
  then have "rx_exec r p s = Some (m, g)" by simp
  then have "m = take (length m) s" by (rule rx_exec_take)
  with 4 have "s \<noteq> []" by auto
  with 4 show ?case by (cases m) auto
qed auto

declare rx_pieces.simps [simp del]

text \<open>\<^verbatim>\<open>text.match(r)\<close> for a global \<open>r\<close>; the empty list stands for \<^verbatim>\<open>null\<close>.\<close>

definition js_match :: "string \<Rightarrow> rx \<Rightarrow> string list" where
  "js_match s r = concat (map (\<lambda>pc. case pc of Lit c \<Rightarrow> [] | Match m g \<Rightarrow> [m]) (rx_pieces r None s))"

text \<open>\<^verbatim>\<open>text.matchAll(r)\<close>: every match with its captures.\<close>

definition js_matchAll :: "string \<Rightarrow> rx \<Rightarrow> (string \<times> captures) list" where
  "js_matchAll s r =
     concat (map (\<lambda>pc. case pc of Lit c \<Rightarrow> [] | Match m g \<Rightarrow> [(m, g)]) (rx_pieces r None s))"

text \<open>
  \<^verbatim>\<open>text.replace(r, f)\<close> for a global \<open>r\<close> and a replacer function \<open>f\<close> of the match
  and its captures. \<^verbatim>\<open>text.replace(r, "")\<close> is \<open>js_replace_rx text r (\<lambda>m g. [])\<close>.
\<close>

definition js_replace_rx :: "string \<Rightarrow> rx \<Rightarrow> (string \<Rightarrow> captures \<Rightarrow> string) \<Rightarrow> string" where
  "js_replace_rx s r f =
     concat (map (\<lambda>pc. case pc of Lit c \<Rightarrow> [c] | Match m g \<Rightarrow> f m g) (rx_pieces r None s))"

text \<open>The capture \<open>$n\<close>; a group that did not take part in the match is the empty string here.\<close>

definition capture :: "captures \<Rightarrow> nat \<Rightarrow> string" where
  "capture g n = (case map_of g n of None \<Rightarrow> [] | Some v \<Rightarrow> v)"

section \<open>The data model\<close>

text \<open>
  \<^verbatim>\<open>TFile\<close>, \<^verbatim>\<open>Pos\<close>, \<^verbatim>\<open>HeadingCache\<close> and \<^verbatim>\<open>CachedMetadata\<close> are
  Obsidian's types, with the fields the compiler reads. A position keeps the lines of its
  start and of its end; a block of the cache is its position.
\<close>

record TFile =
  path :: string
  name :: string
  basename :: string
  extension :: string

record Pos =
  start_line :: nat
  end_line :: nat

record HeadingCache =
  heading :: string
  level :: nat
  position :: Pos

record CachedMetadata =
  blocks :: "(string \<rightharpoonup> Pos) option"
  headings :: "HeadingCache list option"
  frontmatter :: "(string \<rightharpoonup> string) option"

record Asset =
  asset_path :: string
  asset_content :: string

text \<open>The options of \<^verbatim>\<open>ExcalidrawCompiler.compileMarkdown\<close>.\<close>

record ExcalidrawOptions =
  includeExcaliDrawJs :: bool
  idAppendage :: "string option"
  includeFrontMatter :: "bool option"

text \<open>
  What a compilation does beside computing its text: the notices it shows to the user
  (\<^verbatim>\<open>new Notice(...)\<close>) and its calls of the drawing compiler, with the options and
  the path of the drawing. Output to the console and the logger is left out.
\<close>

datatype event = Notice string | CompileDrawing ExcalidrawOptions string

record CustomFilter =
  pattern :: string
  flags :: string
  replace :: string

text \<open>
  The Dataview plugin's API. A call that throws returns \<open>None\<close>.
  \<open>executeJs query path\<close> is the \<^verbatim>\<open>innerHTML\<close> of the element that
  \<^verbatim>\<open>dvApi.executeJs(query, div, component, path)\<close> has rendered into;
  \<open>tryEvaluate query\<close> is \<^verbatim>\<open>dvApi.tryEvaluate(query, {this: dvApi.page(path)})\<close>, where
  \<open>Some None\<close> is a result that is falsy and \<open>Some (Some s)\<close> a truthy result whose
  \<^verbatim>\<open>toString()\<close> is \<open>s\<close>.
\<close>

record DataviewApi =
  dataviewJsKeyword :: string
  inlineQueryPrefix :: string
  inlineJsQueryPrefix :: string
  tryQueryMarkdown :: "string \<Rightarrow> string \<Rightarrow> string option"
  executeJs :: "string \<Rightarrow> string \<Rightarrow> string option"
  tryEvaluate :: "string \<Rightarrow> string option option"

text \<open>
  The collaborators of the compiler: what it reaches through \<^verbatim>\<open>this.vault\<close>,
  \<^verbatim>\<open>this.metadataCache\<close>, \<^verbatim>\<open>this.settings\<close>, \<^verbatim>\<open>this.excalidrawCompiler\<close>,
  \<^verbatim>\<open>PublishFile\<close> and the imports of \<^verbatim>\<open>../utils\<close>, none of which is part of
  \<^verbatim>\<open>GardenPageCompiler.ts\<close>. They are parameters of the model. A read or a call that
  throws (a rejected promise) returns \<open>None\<close>.

  \<^item> \<open>applyFilter f text\<close> is \<^verbatim>\<open>text.replace(RegExp(f.pattern, f.flags), f.replace)\<close>,
    \<open>None\<close> when the pattern is not a regular expression.
  \<^item> \<open>getFilesMarkedForPublishing\<close> is the paths of the notes of
    \<^verbatim>\<open>this.getFilesMarkedForPublishing()\<close>.
  \<^item> \<open>getGardenPathForNote p\<close> is \<^verbatim>\<open>getGardenPathForNote(p, this.rewriteRules)\<close>.
  \<^item> \<open>escapeRegExp p\<close> is the regular expression that the text \<^verbatim>\<open>escapeRegExp(p)\<close>
    denotes inside the source of a \<^verbatim>\<open>RegExp\<close>.
  \<^item> \<open>setWidth svg size\<close> is the local function of \<^verbatim>\<open>createSvgEmbeds\<close>, which parses
    and serializes the drawing with the browser's \<^verbatim>\<open>DOMParser\<close> and
    \<^verbatim>\<open>XMLSerializer\<close>.
  \<^item> \<open>decodeURI\<close> is the function of ECMAScript, \<open>None\<close> for a \<^verbatim>\<open>URIError\<close>.
  \<^item> The last six fields are the constants of \<^verbatim>\<open>../utils/regexes\<close>, regular
    expressions with the \<^verbatim>\<open>g\<close> flag like every regular expression of the compiler.
\<close>

record env =
  getLinkpath :: "string \<Rightarrow> string"
  getFirstLinkpathDest :: "string \<Rightarrow> string \<Rightarrow> TFile option"
  getFileCache :: "TFile \<Rightarrow> CachedMetadata option"
  cachedRead :: "TFile \<Rightarrow> string option"
  vaultRead :: "TFile \<Rightarrow> string option"
  readBinary :: "TFile \<Rightarrow> string option"
  arrayBufferToBase64 :: "string \<Rightarrow> string"
  customFilters :: "CustomFilter list"
  applyFilter :: "CustomFilter \<Rightarrow> string \<Rightarrow> string option"
  getCompiledFrontmatter :: "TFile \<Rightarrow> string"
  getFilesMarkedForPublishing :: "string list"
  compileMarkdown :: "ExcalidrawOptions \<Rightarrow> TFile \<Rightarrow> string \<Rightarrow> string option"
  getAPI :: "DataviewApi option"
  slugify :: "string \<Rightarrow> string"
  sanitizePermalink :: "string \<Rightarrow> string"
  generateUrlPath :: "string \<Rightarrow> string"
  getGardenPathForNote :: "string \<Rightarrow> string"
  fixMarkdownHeaderSyntax :: "string \<Rightarrow> string"
  escapeRegExp :: "string \<Rightarrow> rx"
  setWidth :: "string \<Rightarrow> string \<Rightarrow> string option"
  decodeURI :: "string \<Rightarrow> string option"
  FRONTMATTER_REGEX :: rx
  BLOCKREF_REGEX :: rx
  CODE_FENCE_REGEX :: rx
  CODEBLOCK_REGEX :: rx
  EXCALIDRAW_REGEX :: rx
  TRANSCLUDED_SVG_REGEX :: rx

section \<open>The passes on the text\<close>

subsection \<open>convertCustomFilters\<close>

text \<open>
  Every filter is applied to the text that the filters before it have produced; a filter
  whose pattern is no regular expression is skipped with a notice.
\<close>

definition convertCustomFilters :: "env \<Rightarrow> string \<Rightarrow> string \<times> event list" where
  "convertCustomFilters E text =
     fold (\<lambda>filter (text, events).
             case applyFilter E filter text of
               Some text' \<Rightarrow> (text', events)
             | None \<Rightarrow>
                 (text, events @
                   [Notice (''Your custom filters contains an invalid regex: '' @
                            pattern filter @ ''. Skipping it.'')]))
          (customFilters E) (text, [])"

subsection \<open>createBlockIDs\<close>

text \<open>
  \<^verbatim>\<open>/ \^([\w\d-]+)/g\<close> and \<^verbatim>\<open>/\n\^([\w\d-]+)\n/g\<close>.
\<close>

definition block_id_chars :: "char list" where
  "block_id_chars = word_chars @ digit_chars @ ''-''"

definition block_pattern :: rx where
  "block_pattern = seqs [Chr CHR '' '', Chr CHR ''^'', Group 1 (Plus True (In block_id_chars))]"

definition complex_block_pattern :: rx where
  "complex_block_pattern =
     seqs [Chr CHR 0x0A, Chr CHR ''^'', Group 1 (Plus True (In block_id_chars)), Chr CHR 0x0A]"

definition createBlockIDs :: "string \<Rightarrow> string" where
  "createBlockIDs text =
     (let text1 = js_replace_rx text complex_block_pattern
                    (\<lambda>match g. ''{ #'' @ capture g 1 @ ''}'' @ [CHR 0x0A, CHR 0x0A]);
          text2 = js_replace_rx text1 block_pattern
                    (\<lambda>match g. [CHR 0x0A] @ ''{ #'' @ capture g 1 @ ''}'' @ [CHR 0x0A])
      in text2)"

subsection \<open>removeObsidianComments\<close>

text \<open>\<^verbatim>\<open>/%%.+?%%/gms\<close>: with the \<^verbatim>\<open>s\<close> flag the dot matches every code unit.\<close>

definition obsidianCommentsRegex :: rx where
  "obsidianCommentsRegex = seqs [lit ''%%'', Plus False AnyChar, lit ''%%'']"

text \<open>
  A comment is left in when its text is part of a match of one of the three regular
  expressions (\<^verbatim>\<open>x.contains(commentMatch)\<close>); otherwise the first occurrence of its text
  is taken out of the text.
\<close>

definition removeObsidianComments :: "env \<Rightarrow> string \<Rightarrow> string" where
  "removeObsidianComments E text =
     (let obsidianCommentsMatches = js_match text obsidianCommentsRegex;
          codeBlocks = js_match text (CODEBLOCK_REGEX E);
          codeFences = js_match text (CODE_FENCE_REGEX E);
          excalidraw = js_match text (EXCALIDRAW_REGEX E)
      in fold (\<lambda>commentMatch text.
                 if list_ex (\<lambda>x. js_includes x commentMatch) codeBlocks then text
                 else if list_ex (\<lambda>x. js_includes x commentMatch) codeFences then text
                 else if list_ex (\<lambda>x. js_includes x commentMatch) excalidraw then text
                 else js_replace text commentMatch [])
              obsidianCommentsMatches text)"

subsection \<open>convertFrontMatter\<close>

definition convertFrontMatter :: "env \<Rightarrow> TFile \<Rightarrow> string \<Rightarrow> string" where
  "convertFrontMatter E file text =
     js_replace_rx text (FRONTMATTER_REGEX E) (\<lambda>match p1. getCompiledFrontmatter E file)"

subsection \<open>convertDataViews\<close>

text \<open>
  \<^verbatim>\<open>/```dataview\s(.+?)```/gms\<close>, and the three expressions that are built from the
  prefixes of the plugin's settings:
  \<^verbatim>\<open>"```" + escapeRegExp(dataviewJsPrefix) + "\\s(.+?)```"\<close> and
  \<^verbatim>\<open>"`" + escapeRegExp(prefix) + "(.+?)`"\<close>, all with the flags \<^verbatim>\<open>gsm\<close>.
\<close>

definition dataViewRegex :: rx where
  "dataViewRegex = seqs [lit ''```dataview'', In space_chars, Group 1 (Plus False AnyChar), lit ''```'']"

definition dataViewJsRegex :: "env \<Rightarrow> string \<Rightarrow> rx" where
  "dataViewJsRegex E dataviewJsPrefix =
     seqs [lit ''```'', escapeRegExp E dataviewJsPrefix, In space_chars,
           Group 1 (Plus False AnyChar), lit ''```'']"

definition inlineDataViewRegex :: "env \<Rightarrow> string \<Rightarrow> rx" where
  "inlineDataViewRegex E queryPrefix =
     seqs [Chr CHR ''`'', escapeRegExp E queryPrefix, Group 1 (Plus False AnyChar), Chr CHR ''`'']"

text \<open>
  One of the four loops over the matches of a query expression. \<open>body\<close> is the
  \<^verbatim>\<open>try\<close> block: the new \<open>replacedText\<close>, or \<open>None\<close> when it throws. The
  \<^verbatim>\<open>catch\<close> block shows the notice and executes \<^verbatim>\<open>return queryBlock[0]\<close>, which
  ends \<^verbatim>\<open>convertDataViews\<close> with the text of the match as its result: \<open>Inl\<close>.
  \<open>Inr\<close> is the state after the last match.
\<close>

fun query_loop ::
  "(string \<times> captures \<Rightarrow> string \<Rightarrow> string option) \<Rightarrow> string \<Rightarrow> (string \<times> captures) list \<Rightarrow>
   string \<times> event list \<Rightarrow> (string \<times> event list) + (string \<times> event list)" where
  "query_loop body notice [] st = Inr st"
| "query_loop body notice (queryBlock # rest) (replacedText, events) =
     (case body queryBlock replacedText of
        None \<Rightarrow> Inl (fst queryBlock, events @ [Notice notice])
      | Some replacedText' \<Rightarrow> query_loop body notice rest (replacedText', events))"

definition dataview_notice :: "string \<Rightarrow> string" where
  "dataview_notice kind =
     ''Unable to render '' @ kind @
     '' query. Please update the dataview plugin to the latest version.''"

text \<open>
  The matches are those of the text that the pass receives; the replacements are made in
  \<open>replacedText\<close>. The test \<^verbatim>\<open>!matches && ...\<close> of the source is never true, since
  \<^verbatim>\<open>matchAll\<close> returns an iterator.
\<close>

definition convertDataViews :: "env \<Rightarrow> TFile \<Rightarrow> string \<Rightarrow> string \<times> event list" where
  "convertDataViews E file text =
     (case getAPI E of
        None \<Rightarrow> (text, [])
      | Some dvApi \<Rightarrow>
         (let matches = js_matchAll text dataViewRegex;
              dataviewJsMatches = js_matchAll text (dataViewJsRegex E (dataviewJsKeyword dvApi));
              inlineMatches = js_matchAll text (inlineDataViewRegex E (inlineQueryPrefix dvApi));
              inlineJsMatches = js_matchAll text (inlineDataViewRegex E (inlineJsQueryPrefix dvApi))
          in case query_loop
                    (\<lambda>queryBlock replacedText.
                       case tryQueryMarkdown dvApi (capture (snd queryBlock) 1) (path file) of
                         None \<Rightarrow> None
                       | Some markdown \<Rightarrow>
                           Some (js_replace replacedText (fst queryBlock)
                                   (markdown @ [CHR 0x0A] @ ''{ .block-language-dataview}'')))
                    (dataview_notice ''dataview'') matches (text, []) of
               Inl r \<Rightarrow> r
             | Inr st1 \<Rightarrow>
            (case query_loop
                    (\<lambda>queryBlock replacedText.
                       case executeJs dvApi (capture (snd queryBlock) 1) (path file) of
                         None \<Rightarrow> None
                       | Some innerHTML \<Rightarrow> Some (js_replace replacedText (fst queryBlock) innerHTML))
                    (dataview_notice ''dataviewjs'') dataviewJsMatches st1 of
               Inl r \<Rightarrow> r
             | Inr st2 \<Rightarrow>
            (case query_loop
                    (\<lambda>inlineQuery replacedText.
                       case tryEvaluate dvApi (capture (snd inlineQuery) 1) of
                         None \<Rightarrow> None
                       | Some None \<Rightarrow> Some replacedText
                       | Some (Some dataviewResult) \<Rightarrow>
                           Some (js_replace replacedText (fst inlineQuery) dataviewResult))
                    (dataview_notice ''inline dataview'') inlineMatches st2 of
               Inl r \<Rightarrow> r
             | Inr st3 \<Rightarrow>
            (case query_loop
                    (\<lambda>inlineJsQuery replacedText.
                       case executeJs dvApi (capture (snd inlineJsQuery) 1) (path file) of
                         None \<Rightarrow> None
                       | Some innerHTML \<Rightarrow> Some (js_replace replacedText (fst inlineJsQuery) innerHTML))
                    (dataview_notice ''inline dataviewjs'') inlineJsMatches st3 of
               Inl r \<Rightarrow> r
             | Inr st4 \<Rightarrow> st4)))))"

subsection \<open>convertLinksToFullPath\<close>

definition stripAwayCodeFencesAndFrontmatter :: "env \<Rightarrow> string \<Rightarrow> string" where
  "stripAwayCodeFencesAndFrontmatter E text =
     (let t1 = js_replace_rx text (EXCALIDRAW_REGEX E) (\<lambda>m g. []);
          t2 = js_replace_rx t1 (CODEBLOCK_REGEX E) (\<lambda>m g. []);
          t3 = js_replace_rx t2 (CODE_FENCE_REGEX E) (\<lambda>m g. []);
          t4 = js_replace_rx t3 (FRONTMATTER_REGEX E) (\<lambda>m g. [])
      in t4)"

text \<open>\<^verbatim>\<open>/\[\[(.+?)\]\]/g\<close>.\<close>

definition linkedFileRegex :: rx where
  "linkedFileRegex = seqs [lit ''[['', Group 1 (Plus False dot), lit '']]'']"

text \<open>
  The name, the header path and the display name of a link, as the body of the loop
  computes them: the text between the brackets is split at \<^verbatim>\<open>|\<close>, a backslash at the
  end of the name is dropped, the display name defaults to the name, and the name is cut at
  its first \<^verbatim>\<open>#\<close>. (\<^verbatim>\<open>split\<close> returns no empty array; the case is there for
  totality and does what the \<^verbatim>\<open>catch\<close> block does.)
\<close>

definition parseLink :: "string \<Rightarrow> (string \<times> string \<times> string) option" where
  "parseLink linkMatch =
     (let textInsideBrackets =
            js_substring linkMatch (js_indexOf linkMatch ''['' + 2) (js_lastIndexOf linkMatch '']'' - 1)
      in case js_split textInsideBrackets ''|'' of
           [] \<Rightarrow> None
         | linkedFileName0 # rest \<Rightarrow>
            (let linkedFileName1 =
                   (if js_endsWith linkedFileName0 [bslash]
                    then js_substring linkedFileName0 0 (int (length linkedFileName0) - 1)
                    else linkedFileName0);
                 linkDisplayName =
                   (case rest of
                      [] \<Rightarrow> linkedFileName1
                    | d # _ \<Rightarrow> if d = [] then linkedFileName1 else d)
             in if js_includes linkedFileName1 ''#'' then
                  (case js_split linkedFileName1 ''#'' of
                     [] \<Rightarrow> None
                   | linkedFileName # headerSplit \<Rightarrow>
                       Some (linkedFileName,
                             (case headerSplit of [] \<Rightarrow> [] | h # _ \<Rightarrow> ''#'' @ h),
                             linkDisplayName))
                else Some (linkedFileName1, [], linkDisplayName)))"

text \<open>The body of the loop: one link and the text converted so far.\<close>

definition convertLink :: "env \<Rightarrow> TFile \<Rightarrow> string \<Rightarrow> string \<Rightarrow> string" where
  "convertLink E file linkMatch convertedText =
     (case parseLink linkMatch of
        None \<Rightarrow> convertedText
      | Some (linkedFileName, headerPath, linkDisplayName) \<Rightarrow>
         (case getFirstLinkpathDest E (getLinkpath E linkedFileName) (path file) of
            None \<Rightarrow>
              js_replace convertedText linkMatch
                (''[['' @ linkedFileName @ headerPath @ [bslash] @ ''|'' @ linkDisplayName @ '']]'')
          | Some linkedFile \<Rightarrow>
              if extension linkedFile = ''md'' then
                (let extensionlessPath =
                       js_substring (path linkedFile) 0 (js_lastIndexOf (path linkedFile) ''.'')
                 in js_replace convertedText linkMatch
                      (''[['' @ extensionlessPath @ headerPath @ [bslash] @ ''|'' @ linkDisplayName @ '']]''))
              else convertedText))"

definition convertLinksToFullPath :: "env \<Rightarrow> TFile \<Rightarrow> string \<Rightarrow> string" where
  "convertLinksToFullPath E file text =
     (let textToBeProcessed = stripAwayCodeFencesAndFrontmatter E text;
          linkedFileMatches = js_match textToBeProcessed linkedFileRegex
      in fold (convertLink E file) linkedFileMatches text)"

subsection \<open>The parts of an embed\<close>

text \<open>
  \<^verbatim>\<open>x.substring(x.indexOf("[") + 2, x.indexOf("]")).split("|")\<close>, which the loops over
  the embeds start with: the text between \<^verbatim>\<open>![[\<close> and the first \<^verbatim>\<open>]\<close>, split
  at \<^verbatim>\<open>|\<close>. \<^verbatim>\<open>split\<close> returns no empty array; where a loop body below has a case
  for one, it does what the \<^verbatim>\<open>catch\<close> block does.
\<close>

definition insideBrackets :: "string \<Rightarrow> string list" where
  "insideBrackets x = js_split (js_substring x (js_indexOf x ''['' + 2) (js_indexOf x '']'')) ''|''"

subsection \<open>createTranscludedText\<close>

text \<open>\<^verbatim>\<open>/!\[\[(.+?)\]\]/g\<close>.\<close>

definition transcludedRegex :: rx where
  "transcludedRegex = seqs [lit ''![['', Group 1 (Plus False dot), lit '']]'']"

text \<open>The decimal digits of a number, as a template literal prints it.\<close>

function show_nat :: "nat \<Rightarrow> string" where
  "show_nat n = (if n < 10 then [digit_chars ! n] else show_nat (n div 10) @ [digit_chars ! (n mod 10)])"
  by pat_completeness auto
termination
  by (relation "measure (\<lambda>n. n)") auto

declare show_nat.simps [simp del]

text \<open>\<^verbatim>\<open>xs.indexOf(x)\<close> on an array.\<close>

fun array_indexOf :: "'a list \<Rightarrow> 'a \<Rightarrow> int" where
  "array_indexOf [] x = - 1"
| "array_indexOf (y # ys) x =
     (if y = x then 0 else (let i = array_indexOf ys x in if i < 0 then - 1 else i + 1))"

definition generateTransclusionHeader :: "env \<Rightarrow> string option \<Rightarrow> TFile \<Rightarrow> string option" where
  "generateTransclusionHeader E headerName transcludedFile =
     (case headerName of
        None \<Rightarrow> None
      | Some h \<Rightarrow>
          if h = [] then Some []
          else Some (fixMarkdownHeaderSyntax E
                       (if js_includes h ''{{title}}''
                        then js_replace h ''{{title}}'' (basename transcludedFile)
                        else h)))"

text \<open>
  \<^verbatim>\<open>metadata.blocks\<close> is a plain object, and \<^verbatim>\<open>metadata.blocks[refBlock]\<close> is a read
  of a property: the object's own property of this name, the blocks of the cache being
  its own properties; without one, the property of this name that the object inherits
  from \<^verbatim>\<open>Object.prototype\<close>; without that, \<^verbatim>\<open>undefined\<close>. The inherited properties
  are functions, and for \<^verbatim>\<open>__proto__\<close> the prototype itself: values that are truthy
  and have no \<^verbatim>\<open>position\<close>.
\<close>

datatype 'a property = Own 'a | Inherited | Undefined

definition object_prototype_keys :: "string list" where
  "object_prototype_keys =
     [''constructor'', ''hasOwnProperty'', ''isPrototypeOf'', ''propertyIsEnumerable'',
      ''toLocaleString'', ''toString'', ''valueOf'', ''__proto__'',
      ''__defineGetter__'', ''__defineSetter__'', ''__lookupGetter__'', ''__lookupSetter__'']"

definition object_get :: "(string \<rightharpoonup> 'a) \<Rightarrow> string \<Rightarrow> 'a property" where
  "object_get obj key =
     (case obj key of
        Some v \<Rightarrow> Own v
      | None \<Rightarrow> if key \<in> set object_prototype_keys then Inherited else Undefined)"

text \<open>
  The block of a transclusion \<^verbatim>\<open>![[target#^id]]\<close>: the lines of the block's position in
  the cache, from its start line to its end line, without the first \<^verbatim>\<open>^id\<close>. The
  whole text when the cache has no blocks or \<^verbatim>\<open>metadata.blocks[refBlock]\<close> is
  \<^verbatim>\<open>undefined\<close>. For an inherited property \<^verbatim>\<open>blockInFile.position.start\<close> throws a
  \<^verbatim>\<open>TypeError\<close>: the result is \<open>None\<close>.
\<close>

definition transcludeBlock :: "string \<Rightarrow> CachedMetadata option \<Rightarrow> string \<Rightarrow> string option" where
  "transcludeBlock fileText metadata refBlock =
     (case (case metadata of
              None \<Rightarrow> Undefined
            | Some md \<Rightarrow> (case blocks md of None \<Rightarrow> Undefined | Some bs \<Rightarrow> object_get bs refBlock)) of
        Undefined \<Rightarrow> Some fileText
      | Inherited \<Rightarrow> None
      | Own blockInFile \<Rightarrow>
          Some (js_replace
                  (js_join (js_slice (js_split fileText [CHR 0x0A])
                              (start_line blockInFile) (Some (end_line blockInFile + 1)))
                     [CHR 0x0A])
                  (''^'' @ refBlock) []))"

text \<open>
  The section of a transclusion \<^verbatim>\<open>![[target#Header]]\<close>: from the start line of the
  first heading with this text to the start line of the next heading whose level is not
  greater, or to the end of the text.
\<close>

definition transcludeHeader :: "string \<Rightarrow> CachedMetadata option \<Rightarrow> string \<Rightarrow> string" where
  "transcludeHeader fileText metadata refHeader =
     (case (case metadata of None \<Rightarrow> None | Some md \<Rightarrow> headings md) of
        None \<Rightarrow> fileText
      | Some hs \<Rightarrow>
         (case find (\<lambda>header. heading header = refHeader) hs of
            None \<Rightarrow> fileText
          | Some headerInFile \<Rightarrow>
             (let headerPosition = array_indexOf hs headerInFile;
                  cutTo = find (\<lambda>header. level header \<le> level headerInFile)
                               (js_slice hs (nat (headerPosition + 1)) None)
              in case cutTo of
                   Some c \<Rightarrow>
                     js_join (js_slice (js_split fileText [CHR 0x0A])
                                (start_line (position headerInFile))
                                (Some (start_line (position c))))
                       [CHR 0x0A]
                 | None \<Rightarrow>
                     js_join (js_slice (js_split fileText [CHR 0x0A])
                                (start_line (position headerInFile)) None)
                       [CHR 0x0A])))"

text \<open>
  The section id and the text of the transclusion; \<open>None\<close> when the block branch throws.
  \<^verbatim>\<open>#^\<close> is looked for before \<^verbatim>\<open>#\<close>. (A name that includes the separator splits
  into two parts at least; the other case is there for totality and is \<open>None\<close> too.)
\<close>

definition transcludeSection ::
  "env \<Rightarrow> string \<Rightarrow> string \<Rightarrow> CachedMetadata option \<Rightarrow> (string \<times> string) option" where
  "transcludeSection E transclusionFileName fileText metadata =
     (if js_includes transclusionFileName ''#^'' then
        (case js_split transclusionFileName ''#^'' of
           _ # refBlock # _ \<Rightarrow>
             map_option (Pair (''#'' @ slugify E refBlock))
               (transcludeBlock fileText metadata refBlock)
         | _ \<Rightarrow> None)
      else if js_includes transclusionFileName ''#'' then
        (case js_split transclusionFileName ''#'' of
           _ # refHeader # _ \<Rightarrow>
             Some (''#'' @ slugify E refHeader, transcludeHeader fileText metadata refHeader)
         | _ \<Rightarrow> None)
      else Some ([], fileText))"

definition embedded_link_of :: "string \<Rightarrow> string" where
  \<open>embedded_link_of href =
     ''<a class="markdown-embed-link" href="'' @ href @
     ''" aria-label="Open link"><svg xmlns="http://www.w3.org/2000/svg" width="24" height="24" viewBox="0 0 24 24" fill="none" stroke="currentColor" stroke-width="2" stroke-linecap="round" stroke-linejoin="round" class="svg-icon lucide-link"><path d="M10 13a5 5 0 0 0 7.54.54l3-3a5 5 0 0 0-7.07-7.07l-1.72 1.71"></path><path d="M14 11a5 5 0 0 0-7.54-.54l-3 3a5 5 0 0 0 7.07 7.07l1.71-1.71"></path></svg></a>''\<close>

definition headerSection_of :: "string option \<Rightarrow> string" where
  \<open>headerSection_of header =
     (case header of
        None \<Rightarrow> []
      | Some h \<Rightarrow>
          if h = [] then []
          else ''$<div class="markdown-embed-title">'' @ [CHR 0x0A, CHR 0x0A] @ h @
               [CHR 0x0A, CHR 0x0A] @ ''</div>'' @ [CHR 0x0A])\<close>

definition embed_envelope :: "string \<Rightarrow> string \<Rightarrow> string \<Rightarrow> string" where
  \<open>embed_envelope embedded_link headerSection fileText =
     [CHR 0x0A] @ ''<div class="transclusion internal-embed is-loaded">'' @ embedded_link @
     ''<div class="markdown-embed">'' @ [CHR 0x0A, CHR 0x0A] @ headerSection @
     [CHR 0x0A, CHR 0x0A] @ fileText @ [CHR 0x0A, CHR 0x0A] @ ''</div></div>'' @ [CHR 0x0A]\<close>

text \<open>
  The state of the loop over the matches: the text, the counter of the drawings and what
  the loop has done beside.
\<close>

record transclusion_state =
  transcludedText :: string
  numberOfExcaliDraws :: nat
  events :: "event list"

text \<open>The branch of a target whose name ends with \<^verbatim>\<open>.excalidraw.md\<close>.\<close>

definition transcludeDrawing :: "env \<Rightarrow> TFile \<Rightarrow> string \<Rightarrow> transclusion_state \<Rightarrow> transclusion_state" where
  "transcludeDrawing E linkedFile transclusionMatch st =
     (let n = numberOfExcaliDraws st + 1;
          isFirstDrawing = (n = 1);
          st1 = st\<lparr>numberOfExcaliDraws := n\<rparr>
      in case cachedRead E linkedFile of
           None \<Rightarrow> st1
         | Some fileText \<Rightarrow>
            (let options = \<lparr>includeExcaliDrawJs = isFirstDrawing,
                            idAppendage = Some (show_nat n),
                            includeFrontMatter = Some False\<rparr>;
                 st2 = st1\<lparr>events := events st1 @ [CompileDrawing options (path linkedFile)]\<rparr>
             in case compileMarkdown E options linkedFile fileText of
                  None \<Rightarrow> st2
                | Some excaliDrawCode \<Rightarrow>
                    st2\<lparr>transcludedText :=
                          js_replace (transcludedText st2) transclusionMatch excaliDrawCode\<rparr>))"

text \<open>
  The branch of a markdown target. \<open>recurse\<close> is \<^verbatim>\<open>createTranscludedText\<close> one level
  deeper.
\<close>

definition transcludeNote ::
  "env \<Rightarrow> (TFile \<Rightarrow> string \<Rightarrow> string \<times> event list) \<Rightarrow> TFile \<Rightarrow> string \<Rightarrow> string option \<Rightarrow>
   string \<Rightarrow> transclusion_state \<Rightarrow> transclusion_state" where
  "transcludeNote E recurse linkedFile transclusionFileName headerName transclusionMatch st =
     (case cachedRead E linkedFile of
        None \<Rightarrow> st
      | Some fileText0 \<Rightarrow>
         (let metadata = getFileCache E linkedFile
          in case transcludeSection E transclusionFileName fileText0 metadata of
               None \<Rightarrow> st
             | Some (sectionID, fileText1) \<Rightarrow>
                (let fileText2 = js_replace_rx fileText1 (FRONTMATTER_REGEX E) (\<lambda>m g. []);
                     filtered = convertCustomFilters E fileText2;
                     fileText4 = js_replace_rx (fst filtered) (BLOCKREF_REGEX E) (\<lambda>m g. []);
                     header = generateTransclusionHeader E headerName linkedFile;
                     headerSection = headerSection_of header;
                     embedded_link =
                       (if list_ex (\<lambda>f. f = path linkedFile) (getFilesMarkedForPublishing E) then
                          (let permalink =
                                 (case metadata of
                                    None \<Rightarrow> None
                                  | Some md \<Rightarrow>
                                     (case frontmatter md of
                                        None \<Rightarrow> None
                                      | Some fm \<Rightarrow> fm ''dg-permalink''));
                               gardenPath =
                                 (case permalink of
                                    None \<Rightarrow>
                                      ''/'' @ generateUrlPath E (getGardenPathForNote E (path linkedFile))
                                  | Some pl \<Rightarrow>
                                      if pl = [] then
                                        ''/'' @ generateUrlPath E (getGardenPathForNote E (path linkedFile))
                                      else sanitizePermalink E pl)
                           in embedded_link_of (gardenPath @ sectionID))
                        else []);
                     fileText5 = embed_envelope embedded_link headerSection fileText4;
                     recursed =
                       (if js_match fileText5 transcludedRegex \<noteq> [] then recurse linkedFile fileText5
                        else (fileText5, []))
                 in st\<lparr>transcludedText :=
                          js_replace (transcludedText st) transclusionMatch (fst recursed),
                        events := events st @ snd filtered @ snd recursed\<rparr>)))"

text \<open>
  The body of the loop. An exception in the \<^verbatim>\<open>try\<close> block leaves the text as it
  was and goes on with the next match.
\<close>

definition transcludeMatch ::
  "env \<Rightarrow> (TFile \<Rightarrow> string \<Rightarrow> string \<times> event list) \<Rightarrow> TFile \<Rightarrow> string \<Rightarrow>
   transclusion_state \<Rightarrow> transclusion_state" where
  "transcludeMatch E recurse file transclusionMatch st =
     (case insideBrackets transclusionMatch of
        [] \<Rightarrow> st
      | transclusionFileName # rest \<Rightarrow>
         (let headerName = (case rest of [] \<Rightarrow> None | h # _ \<Rightarrow> Some h)
          in case getFirstLinkpathDest E (getLinkpath E transclusionFileName) (path file) of
               None \<Rightarrow> st
             | Some linkedFile \<Rightarrow>
                 if js_endsWith (name linkedFile) ''.excalidraw.md'' then
                   transcludeDrawing E linkedFile transclusionMatch st
                 else if extension linkedFile = ''md'' then
                   transcludeNote E recurse linkedFile transclusionFileName headerName
                     transclusionMatch st
                 else st))"

lemma transcludeMatch_cong [fundef_cong]:
  assumes "\<And>f t. r1 f t = r2 f t" and "E1 = E2" and "file1 = file2" and "m1 = m2" and "st1 = st2"
  shows "transcludeMatch E1 r1 file1 m1 st1 = transcludeMatch E2 r2 file2 m2 st2"
proof -
  from assms(1) have "r1 = r2" by (intro ext)
  with assms show ?thesis by simp
qed

text \<open>
  At depth 4 and beyond the text is returned as it is. The counter
  \<open>numberOfExcaliDraws\<close> is a local variable of the call: it starts at 0 in every call,
  also in the calls one level deeper.
\<close>

function createTranscludedText :: "env \<Rightarrow> nat \<Rightarrow> TFile \<Rightarrow> string \<Rightarrow> string \<times> event list" where
  "createTranscludedText E currentDepth file text =
     (if currentDepth \<ge> 4 then (text, [])
      else (let st = fold (transcludeMatch E
                             (\<lambda>f t. createTranscludedText E (currentDepth + 1) f t) file)
                          (js_match text transcludedRegex)
                          \<lparr>transcludedText = text, numberOfExcaliDraws = 0, events = []\<rparr>
            in (transcludedText st, events st)))"
  by pat_completeness auto
termination
  by (relation "measure (\<lambda>(E, currentDepth, file, text). 4 - currentDepth)") auto

declare createTranscludedText.simps [simp del]

subsection \<open>createSvgEmbeds\<close>

text \<open>\<^verbatim>\<open>/!\[(.*?)\]\((.*?)(\.(svg))\)/g\<close>.\<close>

definition linkedSvgRegex :: rx where
  "linkedSvgRegex =
     seqs [lit ''!['', Group 1 (Star False dot), lit '']('', Group 2 (Star False dot),
           Group 3 (Seq (Chr CHR ''.'') (Group 4 (lit ''svg''))), Chr CHR '')'']"

text \<open>
  The end of both loop bodies: the drawing is read, its width is set when a size is given,
  and it replaces the match. A read or a \<open>setWidth\<close> that throws leaves the text as it is.
\<close>

definition inlineSvg :: "env \<Rightarrow> TFile \<Rightarrow> string option \<Rightarrow> string \<Rightarrow> string \<Rightarrow> string" where
  "inlineSvg E linkedFile size' svg text =
     (case vaultRead E linkedFile of
        None \<Rightarrow> text
      | Some svgText \<Rightarrow>
         (case size' of
            None \<Rightarrow> js_replace text svg svgText
          | Some sz \<Rightarrow>
              if svgText \<noteq> [] \<and> sz \<noteq> [] then
                (case setWidth E svgText sz of
                   None \<Rightarrow> text
                 | Some svgText' \<Rightarrow> js_replace text svg svgText')
              else js_replace text svg svgText))"

definition embedTranscludedSvg :: "env \<Rightarrow> TFile \<Rightarrow> string \<Rightarrow> string \<Rightarrow> string" where
  "embedTranscludedSvg E file svg text =
     (case insideBrackets svg of
        [] \<Rightarrow> text
      | imageName # rest \<Rightarrow>
         (let size' = (case rest of [] \<Rightarrow> None | sz # _ \<Rightarrow> Some sz)
          in case getFirstLinkpathDest E (getLinkpath E imageName) (path file) of
               None \<Rightarrow> text
             | Some linkedFile \<Rightarrow> inlineSvg E linkedFile size' svg text))"

definition embedLinkedSvg :: "env \<Rightarrow> TFile \<Rightarrow> string \<Rightarrow> string \<Rightarrow> string" where
  "embedLinkedSvg E file svg text =
     (case insideBrackets svg of
        [] \<Rightarrow> text
      | imageName # rest \<Rightarrow>
         (let size' = (case rest of [] \<Rightarrow> None | sz # _ \<Rightarrow> Some sz);
              pathStart = js_lastIndexOf svg ''('' + 1;
              pathEnd = js_lastIndexOf svg '')'';
              imagePath = js_substring svg pathStart pathEnd
          in if js_startsWith imagePath ''http'' then text
             else (case getFirstLinkpathDest E imagePath (path file) of
                     None \<Rightarrow> text
                   | Some linkedFile \<Rightarrow> inlineSvg E linkedFile size' svg text)))"

text \<open>
  The matches of the second loop are those of the text that the first loop has produced.
\<close>

definition createSvgEmbeds :: "env \<Rightarrow> TFile \<Rightarrow> string \<Rightarrow> string" where
  "createSvgEmbeds E file text =
     (let text1 = fold (embedTranscludedSvg E file) (js_match text (TRANSCLUDED_SVG_REGEX E)) text;
          text2 = fold (embedLinkedSvg E file) (js_match text1 linkedSvgRegex) text1
      in text2)"

subsection \<open>convertImageLinks\<close>

text \<open>
  \<^verbatim>\<open>/!\[\[(.*?)(\.(png|jpg|jpeg|gif|webp))\|(.*?)\]\]|!\[\[(.*?)(\.(png|jpg|jpeg|gif|webp))\]\]/g\<close>
  and \<^verbatim>\<open>/!\[(.*?)\]\((.*?)(\.(png|jpg|jpeg|gif|webp))\)/g\<close>.
\<close>

definition image_extension :: rx where
  "image_extension = alts [lit ''png'', lit ''jpg'', lit ''jpeg'', lit ''gif'', lit ''webp'']"

definition transcludedImageRegex :: rx where
  "transcludedImageRegex =
     Alt (seqs [lit ''![['', Group 1 (Star False dot),
                Group 2 (Seq (Chr CHR ''.'') (Group 3 image_extension)),
                Chr CHR ''|'', Group 4 (Star False dot), lit '']]''])
         (seqs [lit ''![['', Group 5 (Star False dot),
                Group 6 (Seq (Chr CHR ''.'') (Group 7 image_extension)), lit '']]''])"

definition imageRegex :: rx where
  "imageRegex =
     seqs [lit ''!['', Group 1 (Star False dot), lit '']('', Group 2 (Star False dot),
           Group 3 (Seq (Chr CHR ''.'') (Group 4 image_extension)), Chr CHR '')'']"

text \<open>
  \<^verbatim>\<open>isNaN(parseInt(v))\<close> for a string or \<^verbatim>\<open>undefined\<close>: after white space and a
  sign, \<^verbatim>\<open>parseInt\<close> wants a decimal digit, or a hexadecimal digit after
  \<^verbatim>\<open>0x\<close>; what follows the digits is ignored.
\<close>

definition parseInt_isNaN :: "string option \<Rightarrow> bool" where
  "parseInt_isNaN v =
     (let inputString = (case v of None \<Rightarrow> ''undefined'' | Some s \<Rightarrow> s);
          S = dropWhile (\<lambda>c. c \<in> set space_chars) inputString;
          S1 = (case S of
                  [] \<Rightarrow> S
                | c # r \<Rightarrow> if c = CHR ''+'' \<or> c = CHR ''-'' then r else S)
      in if prefix ''0x'' S1 \<or> prefix ''0X'' S1 then
           (case drop 2 S1 of
              [] \<Rightarrow> True
            | c # _ \<Rightarrow> c \<notin> set ''0123456789abcdefABCDEF'')
         else (case S1 of [] \<Rightarrow> True | c # _ \<Rightarrow> c \<notin> set digit_chars))"

text \<open>
  \<^verbatim>\<open>encodeURI\<close>: the unreserved and the reserved characters of a URI and \<^verbatim>\<open>#\<close>
  stand for themselves, every other code unit for the escaped octets of its UTF-8 encoding.
\<close>

definition uri_unescaped :: "char list" where
  "uri_unescaped =
     ''abcdefghijklmnopqrstuvwxyzABCDEFGHIJKLMNOPQRSTUVWXYZ0123456789'' @
     '';/?:@&=+$,#'' @ ''-_.!~*()'' @ [CHR 0x27]"

definition percent_octet :: "nat \<Rightarrow> string" where
  "percent_octet n = [CHR ''%'', ''0123456789ABCDEF'' ! (n div 16), ''0123456789ABCDEF'' ! (n mod 16)]"

definition encodeURI :: "string \<Rightarrow> string" where
  "encodeURI s =
     concat (map (\<lambda>c. if c \<in> set uri_unescaped then [c]
                       else (let n = (of_char c :: nat)
                             in if n < 128 then percent_octet n
                                else percent_octet (192 + n div 64) @ percent_octet (128 + n mod 64)))
                 s)"

text \<open>
  The body of the first loop, for a match of the form \<^verbatim>\<open>![[image.png|meta|100]]\<close>; the
  state is \<open>imageText\<close> and \<open>assets\<close>. A target that is not found or cannot be read
  leaves the state as it is.
\<close>

definition convertTranscludedImage ::
  "env \<Rightarrow> string \<Rightarrow> string \<Rightarrow> string \<times> Asset list \<Rightarrow> string \<times> Asset list" where
  "convertTranscludedImage E filePath imageMatch st =
     (case insideBrackets imageMatch of
        [] \<Rightarrow> st
      | imageName # metaDataAndSize \<Rightarrow>
         (let lastValue = (if metaDataAndSize = [] then None else Some (last metaDataAndSize));
              lastValueIsSize = (\<not> parseInt_isNaN lastValue);
              size' = (if lastValueIsSize then lastValue else None);
              metaData0 =
                (if length metaDataAndSize > 1
                 then js_join (js_slice metaDataAndSize 0 (Some (length metaDataAndSize - 1))) '' ''
                 else []);
              metaData =
                (if \<not> lastValueIsSize
                 then metaData0 @ '' '' @ (case lastValue of None \<Rightarrow> ''undefined'' | Some v \<Rightarrow> v)
                 else metaData0)
          in case getFirstLinkpathDest E (getLinkpath E imageName) filePath of
               None \<Rightarrow> st
             | Some linkedFile \<Rightarrow>
                (case readBinary E linkedFile of
                   None \<Rightarrow> st
                 | Some imageData \<Rightarrow>
                    (let imageBase64 = arrayBufferToBase64 E imageData;
                         cmsImgPath = ''/img/user/'' @ path linkedFile;
                         name' =
                           (case size' of
                              None \<Rightarrow> imageName
                            | Some sz \<Rightarrow>
                                if metaData \<noteq> [] \<and> sz \<noteq> [] then imageName @ ''|'' @ metaData @ ''|'' @ sz
                                else if sz \<noteq> [] then imageName @ ''|'' @ sz
                                else imageName);
                         imageMarkdown = ''!['' @ name' @ '']('' @ encodeURI cmsImgPath @ '')''
                     in (js_replace (fst st) imageMatch imageMarkdown,
                         snd st @ [\<lparr>asset_path = cmsImgPath, asset_content = imageBase64\<rparr>])))))"

text \<open>The body of the second loop, for a match of the form \<^verbatim>\<open>![name](image.png)\<close>.\<close>

definition convertMarkdownImage ::
  "env \<Rightarrow> string \<Rightarrow> string \<Rightarrow> string \<times> Asset list \<Rightarrow> string \<times> Asset list" where
  "convertMarkdownImage E filePath imageMatch st =
     (let nameStart = js_indexOf imageMatch ''['' + 1;
          nameEnd = js_indexOf imageMatch '']'';
          imageName = js_substring imageMatch nameStart nameEnd;
          pathStart = js_lastIndexOf imageMatch ''('' + 1;
          pathEnd = js_lastIndexOf imageMatch '')'';
          imagePath = js_substring imageMatch pathStart pathEnd
      in if js_startsWith imagePath ''http'' then st
         else (case decodeURI E imagePath of
                 None \<Rightarrow> st
               | Some decodedImagePath \<Rightarrow>
                  (case getFirstLinkpathDest E decodedImagePath filePath of
                     None \<Rightarrow> st
                   | Some linkedFile \<Rightarrow>
                      (case readBinary E linkedFile of
                         None \<Rightarrow> st
                       | Some imageData \<Rightarrow>
                          (let imageBase64 = arrayBufferToBase64 E imageData;
                               cmsImgPath = ''/img/user/'' @ path linkedFile;
                               imageMarkdown = ''!['' @ imageName @ '']('' @ cmsImgPath @ '')''
                           in (js_replace (fst st) imageMatch imageMarkdown,
                               snd st @ [\<lparr>asset_path = cmsImgPath, asset_content = imageBase64\<rparr>]))))))"

text \<open>Both loops run over the matches of the text that the function receives.\<close>

definition convertImageLinks :: "env \<Rightarrow> string \<Rightarrow> string \<Rightarrow> string \<times> Asset list" where
  "convertImageLinks E text filePath =
     (let st1 = fold (convertTranscludedImage E filePath) (js_match text transcludedImageRegex) (text, []);
          st2 = fold (convertMarkdownImage E filePath) (js_match text imageRegex) st1
      in st2)"

subsection \<open>generateMarkdown\<close>

text \<open>
  The result is the compiled text, its assets and what the compilation did beside; \<open>None\<close>
  when the file cannot be read or, for a drawing, the drawing compiler throws. The steps
  run in the order of \<^verbatim>\<open>COMPILE_STEPS\<close>.
\<close>

definition generateMarkdown :: "env \<Rightarrow> TFile \<Rightarrow> ((string \<times> Asset list) \<times> event list) option" where
  "generateMarkdown E file =
     (case cachedRead E file of
        None \<Rightarrow> None
      | Some vaultFileText \<Rightarrow>
          if js_endsWith (name file) ''.excalidraw.md'' then
            (let options = \<lparr>includeExcaliDrawJs = True, idAppendage = None, includeFrontMatter = None\<rparr>
             in case compileMarkdown E options file vaultFileText of
                  None \<Rightarrow> None
                | Some compiled \<Rightarrow> Some ((compiled, []), [CompileDrawing options (path file)]))
          else
            (let t1 = convertFrontMatter E file vaultFileText;
                 s2 = convertCustomFilters E t1;
                 t3 = createBlockIDs (fst s2);
                 s4 = createTranscludedText E 0 file t3;
                 s5 = convertDataViews E file (fst s4);
                 t6 = convertLinksToFullPath E file (fst s5);
                 t7 = removeObsidianComments E t6;
                 compiledText = createSvgEmbeds E file t7;
                 text_and_images = convertImageLinks E compiledText (path file)
             in Some (text_and_images, snd s2 @ snd s4 @ snd s5)))"

section \<open>The targets of embeds and links\<close>

text \<open>
  The file that the loop of \<^verbatim>\<open>createTranscludedText\<close> looks up for an embed, the file
  that the loop of \<^verbatim>\<open>convertLinksToFullPath\<close> looks up for a link, and the embeds
  whose target is a drawing.
\<close>

definition embedTarget :: "env \<Rightarrow> TFile \<Rightarrow> string \<Rightarrow> TFile option" where
  "embedTarget E file x =
     (case insideBrackets x of
        [] \<Rightarrow> None
      | transclusionFileName # _ \<Rightarrow>
          getFirstLinkpathDest E (getLinkpath E transclusionFileName) (path file))"


definition is_drawing :: "env \<Rightarrow> TFile \<Rightarrow> string \<Rightarrow> bool" where
  "is_drawing E file x =
     (case embedTarget E file x of
        None \<Rightarrow> False
      | Some linkedFile \<Rightarrow> js_endsWith (name linkedFile) ''.excalidraw.md'')"


section \<open>Example vaults\<close>

text \<open>
  Values for the parameters, used by the examples below. The regular expressions are
  \<^verbatim>\<open>/^\s*?---\n([\s\S]*?)\n---/g\<close> for the front matter,
  \<^verbatim>\<open>/(\^\w+(\n|$))/g\<close> for a block reference,
  \<^verbatim>\<open>/`(.*?)`/g\<close> for inline code,
  \<^verbatim>\<open>/```.*?\n[\s\S]+?```/g\<close> for a fenced code block,
  \<^verbatim>\<open>/:\[\[(\d*?,\d*?)\],.*?\]\]/g\<close> for a drawing block and
  \<^verbatim>\<open>/!\[\[(.*?)(\.(svg))\|(.*?)\]\]|!\[\[(.*?)(\.(svg))\]\]/g\<close> for an embedded
  vector image.
\<close>

definition example_FRONTMATTER_REGEX :: rx where
  "example_FRONTMATTER_REGEX =
     seqs [Bol, Star False (In space_chars), lit ''---'', Chr CHR 0x0A,
           Group 1 (Star False AnyChar), Chr CHR 0x0A, lit ''---'']"

definition example_BLOCKREF_REGEX :: rx where
  "example_BLOCKREF_REGEX =
     Group 1 (seqs [Chr CHR ''^'', Plus True (In word_chars), Group 2 (Alt (Chr CHR 0x0A) Eol)])"

definition example_CODE_FENCE_REGEX :: rx where
  "example_CODE_FENCE_REGEX = seqs [Chr CHR ''`'', Group 1 (Star False dot), Chr CHR ''`'']"

definition example_CODEBLOCK_REGEX :: rx where
  "example_CODEBLOCK_REGEX =
     seqs [lit ''```'', Star False dot, Chr CHR 0x0A, Plus False AnyChar, lit ''```'']"

definition example_EXCALIDRAW_REGEX :: rx where
  "example_EXCALIDRAW_REGEX =
     seqs [lit '':[['',
           Group 1 (seqs [Star False (In digit_chars), Chr CHR '','', Star False (In digit_chars)]),
           lit ''],'', Star False dot, lit '']]'']"

definition example_TRANSCLUDED_SVG_REGEX :: rx where
  "example_TRANSCLUDED_SVG_REGEX =
     Alt (seqs [lit ''![['', Group 1 (Star False dot),
                Group 2 (Seq (Chr CHR ''.'') (Group 3 (lit ''svg''))),
                Chr CHR ''|'', Group 4 (Star False dot), lit '']]''])
         (seqs [lit ''![['', Group 5 (Star False dot),
                Group 6 (Seq (Chr CHR ''.'') (Group 7 (lit ''svg''))), lit '']]''])"

text \<open>
  A note \<open>n.md\<close>, a drawing \<open>n.excalidraw.md\<close> and a file \<open>dir/n.ext\<close>, all at the
  places their paths give.
\<close>

definition md :: "string \<Rightarrow> TFile" where
  "md n = \<lparr>path = n @ ''.md'', name = n @ ''.md'', basename = n, extension = ''md''\<rparr>"

definition drawing :: "string \<Rightarrow> TFile" where
  "drawing n = \<lparr>path = n @ ''.excalidraw.md'', name = n @ ''.excalidraw.md'',
                 basename = n @ ''.excalidraw'', extension = ''md''\<rparr>"

definition file_in :: "string \<Rightarrow> string \<Rightarrow> string \<Rightarrow> TFile" where
  "file_in dir n ext = \<lparr>path = dir @ ''/'' @ n @ ''.'' @ ext, name = n @ ''.'' @ ext,
                         basename = n, extension = ext\<rparr>"

text \<open>
  A vault with the given files and their contents, a metadata cache and the Dataview API.
  A link resolves to the first file whose path, name or base name is the link path; the
  link path is the link text before its \<^verbatim>\<open>#\<close>. There is no custom filter and
  nothing is marked for publishing; the drawing compiler answers with a fixed element, and
  the helpers of \<^verbatim>\<open>../utils\<close> return their argument. \<open>decodeURI\<close> is given for
  texts without \<^verbatim>\<open>%\<close> only, where it returns its argument.
\<close>

definition vault_env ::
  "(TFile \<times> string) list \<Rightarrow> (TFile \<Rightarrow> CachedMetadata option) \<Rightarrow> DataviewApi option \<Rightarrow> env" where
  "vault_env files cache dv =
     \<lparr>getLinkpath = (\<lambda>linktext. takeWhile (\<lambda>c. c \<noteq> CHR ''#'') linktext),
      getFirstLinkpathDest = (\<lambda>linkpath sourcePath.
         find (\<lambda>f. path f = linkpath \<or> name f = linkpath \<or> basename f = linkpath) (map fst files)),
      getFileCache = cache,
      cachedRead = map_of files,
      vaultRead = map_of files,
      readBinary = map_of files,
      arrayBufferToBase64 = (\<lambda>b. ''base64 of '' @ b),
      customFilters = [],
      applyFilter = (\<lambda>f t. None),
      getCompiledFrontmatter = (\<lambda>f. ''---'' @ [CHR 0x0A] @ ''---''),
      getFilesMarkedForPublishing = [],
      compileMarkdown = (\<lambda>options f t. Some (''<drawing/>'')),
      getAPI = dv,
      slugify = (\<lambda>s. s),
      sanitizePermalink = (\<lambda>s. s),
      generateUrlPath = (\<lambda>s. s),
      getGardenPathForNote = (\<lambda>s. s),
      fixMarkdownHeaderSyntax = (\<lambda>s. s),
      escapeRegExp = lit,
      setWidth = (\<lambda>svg sz. Some svg),
      decodeURI = (\<lambda>s. if CHR ''%'' \<in> set s then None else Some s),
      FRONTMATTER_REGEX = example_FRONTMATTER_REGEX,
      BLOCKREF_REGEX = example_BLOCKREF_REGEX,
      CODE_FENCE_REGEX = example_CODE_FENCE_REGEX,
      CODEBLOCK_REGEX = example_CODEBLOCK_REGEX,
      EXCALIDRAW_REGEX = example_EXCALIDRAW_REGEX,
      TRANSCLUDED_SVG_REGEX = example_TRANSCLUDED_SVG_REGEX\<rparr>"

text \<open>
  A chain of six transclusions: \<open>n0\<close> embeds \<open>n1\<close>, which embeds \<open>n2\<close>, and so on
  to \<open>n6\<close>.
\<close>

definition chain_env :: env where
  "chain_env = vault_env
     [(md ''n0'', ''zero ![[n1]]''), (md ''n1'', ''one ![[n2]]''), (md ''n2'', ''two ![[n3]]''),
      (md ''n3'', ''three ![[n4]]''), (md ''n4'', ''four ![[n5]]''), (md ''n5'', ''five ![[n6]]''),
      (md ''n6'', ''six'')]
     (\<lambda>f. None) None"

section \<open>The depth bound of the transclusion resolver\<close>

lemma createTranscludedText_unfold:
  "d < 4 \<Longrightarrow> d' = d + 1 \<Longrightarrow>
   createTranscludedText E d file text =
     (let st = fold (transcludeMatch E (createTranscludedText E d') file)
                 (js_match text transcludedRegex)
                 \<lparr>transcludedText = text, numberOfExcaliDraws = 0, events = []\<rparr>
      in (transcludedText st, events st))"
  by (subst createTranscludedText.simps) simp

lemma createTranscludedText_deep:
  "4 \<le> d \<Longrightarrow> createTranscludedText E d file text = (text, [])"
  by (simp add: createTranscludedText.simps)

text \<open>
  The chain, level by level from the innermost: what the loop does with the text of a
  level for any resolver \<open>R\<close> one level deeper, the replacement of the embed by the text
  that the deeper level returns, and the result of the level.
\<close>

lemma chain_step3:
  \<open>fold (transcludeMatch chain_env R (md ''n3'')) (js_match (embed_envelope [] [] ''three ![[n4]]'') transcludedRegex)
     \<lparr>transcludedText = (embed_envelope [] [] ''three ![[n4]]''), numberOfExcaliDraws = 0, events = []\<rparr>
   = \<lparr>transcludedText = js_replace (embed_envelope [] [] ''three ![[n4]]'') ''![[n4]]''
                          (fst (R (md ''n4'') (embed_envelope [] [] ''four ![[n5]]''))),
       numberOfExcaliDraws = 0,
       events = snd (R (md ''n4'') (embed_envelope [] [] ''four ![[n5]]''))\<rparr>\<close>
  by code_simp

lemma chain_replace3:
  \<open>js_replace (embed_envelope [] [] ''three ![[n4]]'') ''![[n4]]''
     (embed_envelope [] [] ''four ![[n5]]'')
   = (embed_envelope [] [] (''three '' @ (embed_envelope [] [] ''four ![[n5]]'')))\<close>
  by code_simp

lemma chain_level3:
  \<open>createTranscludedText chain_env 3 (md ''n3'') (embed_envelope [] [] ''three ![[n4]]'') =
   ((embed_envelope [] [] (''three '' @ (embed_envelope [] [] ''four ![[n5]]''))), [])\<close>
proof -
  have \<open>createTranscludedText chain_env 3 (md ''n3'') (embed_envelope [] [] ''three ![[n4]]'') =
    (let st = fold (transcludeMatch chain_env (createTranscludedText chain_env 4) (md ''n3''))
                (js_match (embed_envelope [] [] ''three ![[n4]]'') transcludedRegex)
                \<lparr>transcludedText = (embed_envelope [] [] ''three ![[n4]]''), numberOfExcaliDraws = 0, events = []\<rparr>
     in (transcludedText st, events st))\<close>
    by (rule createTranscludedText_unfold) simp_all
  also have \<open>\<dots> = ((embed_envelope [] [] (''three '' @ (embed_envelope [] [] ''four ![[n5]]''))), [])\<close>
    by (simp only: chain_step3 createTranscludedText_deep [of 4, simplified] chain_replace3 Let_def fst_conv snd_conv
          transclusion_state.simps)
  finally show ?thesis .
qed

lemma chain_step2:
  \<open>fold (transcludeMatch chain_env R (md ''n2'')) (js_match (embed_envelope [] [] ''two ![[n3]]'') transcludedRegex)
     \<lparr>transcludedText = (embed_envelope [] [] ''two ![[n3]]''), numberOfExcaliDraws = 0, events = []\<rparr>
   = \<lparr>transcludedText = js_replace (embed_envelope [] [] ''two ![[n3]]'') ''![[n3]]''
                          (fst (R (md ''n3'') (embed_envelope [] [] ''three ![[n4]]''))),
       numberOfExcaliDraws = 0,
       events = snd (R (md ''n3'') (embed_envelope [] [] ''three ![[n4]]''))\<rparr>\<close>
  by code_simp

lemma chain_replace2:
  \<open>js_replace (embed_envelope [] [] ''two ![[n3]]'') ''![[n3]]''
     (embed_envelope [] [] (''three '' @ (embed_envelope [] [] ''four ![[n5]]'')))
   = (embed_envelope [] [] (''two '' @ (embed_envelope [] [] (''three '' @ (embed_envelope [] [] ''four ![[n5]]'')))))\<close>
  by code_simp

lemma chain_level2:
  \<open>createTranscludedText chain_env 2 (md ''n2'') (embed_envelope [] [] ''two ![[n3]]'') =
   ((embed_envelope [] [] (''two '' @ (embed_envelope [] [] (''three '' @ (embed_envelope [] [] ''four ![[n5]]''))))), [])\<close>
proof -
  have \<open>createTranscludedText chain_env 2 (md ''n2'') (embed_envelope [] [] ''two ![[n3]]'') =
    (let st = fold (transcludeMatch chain_env (createTranscludedText chain_env 3) (md ''n2''))
                (js_match (embed_envelope [] [] ''two ![[n3]]'') transcludedRegex)
                \<lparr>transcludedText = (embed_envelope [] [] ''two ![[n3]]''), numberOfExcaliDraws = 0, events = []\<rparr>
     in (transcludedText st, events st))\<close>
    by (rule createTranscludedText_unfold) simp_all
  also have \<open>\<dots> = ((embed_envelope [] [] (''two '' @ (embed_envelope [] [] (''three '' @ (embed_envelope [] [] ''four ![[n5]]''))))), [])\<close>
    by (simp only: chain_step2 chain_level3 chain_replace2 Let_def fst_conv snd_conv
          transclusion_state.simps)
  finally show ?thesis .
qed

lemma chain_step1:
  \<open>fold (transcludeMatch chain_env R (md ''n1'')) (js_match (embed_envelope [] [] ''one ![[n2]]'') transcludedRegex)
     \<lparr>transcludedText = (embed_envelope [] [] ''one ![[n2]]''), numberOfExcaliDraws = 0, events = []\<rparr>
   = \<lparr>transcludedText = js_replace (embed_envelope [] [] ''one ![[n2]]'') ''![[n2]]''
                          (fst (R (md ''n2'') (embed_envelope [] [] ''two ![[n3]]''))),
       numberOfExcaliDraws = 0,
       events = snd (R (md ''n2'') (embed_envelope [] [] ''two ![[n3]]''))\<rparr>\<close>
  by code_simp

lemma chain_replace1:
  \<open>js_replace (embed_envelope [] [] ''one ![[n2]]'') ''![[n2]]''
     (embed_envelope [] [] (''two '' @ (embed_envelope [] [] (''three '' @ (embed_envelope [] [] ''four ![[n5]]'')))))
   = (embed_envelope [] [] (''one '' @ (embed_envelope [] [] (''two '' @ (embed_envelope [] [] (''three '' @ (embed_envelope [] [] ''four ![[n5]]'')))))))\<close>
  by code_simp

lemma chain_level1:
  \<open>createTranscludedText chain_env 1 (md ''n1'') (embed_envelope [] [] ''one ![[n2]]'') =
   ((embed_envelope [] [] (''one '' @ (embed_envelope [] [] (''two '' @ (embed_envelope [] [] (''three '' @ (embed_envelope [] [] ''four ![[n5]]''))))))), [])\<close>
proof -
  have \<open>createTranscludedText chain_env 1 (md ''n1'') (embed_envelope [] [] ''one ![[n2]]'') =
    (let st = fold (transcludeMatch chain_env (createTranscludedText chain_env 2) (md ''n1''))
                (js_match (embed_envelope [] [] ''one ![[n2]]'') transcludedRegex)
                \<lparr>transcludedText = (embed_envelope [] [] ''one ![[n2]]''), numberOfExcaliDraws = 0, events = []\<rparr>
     in (transcludedText st, events st))\<close>
    by (rule createTranscludedText_unfold) simp_all
  also have \<open>\<dots> = ((embed_envelope [] [] (''one '' @ (embed_envelope [] [] (''two '' @ (embed_envelope [] [] (''three '' @ (embed_envelope [] [] ''four ![[n5]]''))))))), [])\<close>
    by (simp only: chain_step1 chain_level2 chain_replace1 Let_def fst_conv snd_conv
          transclusion_state.simps)
  finally show ?thesis .
qed

lemma chain_step0:
  \<open>fold (transcludeMatch chain_env R (md ''n0'')) (js_match ''zero ![[n1]]'' transcludedRegex)
     \<lparr>transcludedText = ''zero ![[n1]]'', numberOfExcaliDraws = 0, events = []\<rparr>
   = \<lparr>transcludedText = js_replace ''zero ![[n1]]'' ''![[n1]]''
                          (fst (R (md ''n1'') (embed_envelope [] [] ''one ![[n2]]''))),
       numberOfExcaliDraws = 0,
       events = snd (R (md ''n1'') (embed_envelope [] [] ''one ![[n2]]''))\<rparr>\<close>
  by code_simp

lemma chain_replace0:
  \<open>js_replace ''zero ![[n1]]'' ''![[n1]]''
     (embed_envelope [] [] (''one '' @ (embed_envelope [] [] (''two '' @ (embed_envelope [] [] (''three '' @ (embed_envelope [] [] ''four ![[n5]]'')))))))
   = (''zero '' @ (embed_envelope [] [] (''one '' @ (embed_envelope [] [] (''two '' @ (embed_envelope [] [] (''three '' @ (embed_envelope [] [] ''four ![[n5]]''))))))))\<close>
  by code_simp

lemma chain_level0:
  \<open>createTranscludedText chain_env 0 (md ''n0'') ''zero ![[n1]]'' =
   ((''zero '' @ (embed_envelope [] [] (''one '' @ (embed_envelope [] [] (''two '' @ (embed_envelope [] [] (''three '' @ (embed_envelope [] [] ''four ![[n5]]'')))))))), [])\<close>
proof -
  have \<open>createTranscludedText chain_env 0 (md ''n0'') ''zero ![[n1]]'' =
    (let st = fold (transcludeMatch chain_env (createTranscludedText chain_env 1) (md ''n0''))
                (js_match ''zero ![[n1]]'' transcludedRegex)
                \<lparr>transcludedText = ''zero ![[n1]]'', numberOfExcaliDraws = 0, events = []\<rparr>
     in (transcludedText st, events st))\<close>
    by (rule createTranscludedText_unfold) simp_all
  also have \<open>\<dots> = ((''zero '' @ (embed_envelope [] [] (''one '' @ (embed_envelope [] [] (''two '' @ (embed_envelope [] [] (''three '' @ (embed_envelope [] [] ''four ![[n5]]'')))))))), [])\<close>
    by (simp only: chain_step0 chain_level1 chain_replace0 Let_def fst_conv snd_conv
          transclusion_state.simps)
  finally show ?thesis .
qed

text \<open>
  C1. At a recursion depth of 4 or more the transclusion resolver returns its text
  unchanged, whatever the text, the document and the vault are, and does nothing else.
  So of the chain \<open>n0\<close>, ..., \<open>n6\<close> of six nested transclusions the resolver, started
  on \<open>n0\<close> at depth 0, expands the embeds of \<open>n1\<close>, \<open>n2\<close>, \<open>n3\<close> and \<open>n4\<close>
  (the calls at the depths 0 to 3); the embed \<^verbatim>\<open>![[n5]]\<close> in the text of \<open>n4\<close> stays
  as it is written, and nothing of \<open>n5\<close> and \<open>n6\<close> reaches the result.
\<close>

theorem createTranscludedText_depth_bound:
  \<open>(4 \<le> currentDepth \<longrightarrow> createTranscludedText E currentDepth file text = (text, [])) \<and>
   createTranscludedText chain_env 0 (md ''n0'') ''zero ![[n1]]'' =
     (''zero '' @
      embed_envelope [] [] (''one '' @
        embed_envelope [] [] (''two '' @
          embed_envelope [] [] (''three '' @
            embed_envelope [] [] ''four ![[n5]]''))), [])\<close>
  using createTranscludedText_deep [of currentDepth E "file" "text"] chain_level0 by simp

theorem createTranscludedText_depth_bound_witness:
  \<open>(4::nat) \<le> 4 \<and>
   createTranscludedText chain_env 4 (md ''n4'') ''four ![[n5]]'' = (''four ![[n5]]'', [])\<close>
  using createTranscludedText_depth_bound [of 4 chain_env "md ''n4''" "''four ![[n5]]''"]
  by simp

section \<open>Embeds without a target\<close>

lemma fold_unchanged: "(\<And>x. x \<in> set xs \<Longrightarrow> f x st = st) \<Longrightarrow> fold f xs st = st"
  by (induction xs) simp_all








section \<open>Links to files that are no notes\<close>







section \<open>The counter of the drawings\<close>

lemma numberOfExcaliDraws_step:
  "numberOfExcaliDraws (transcludeMatch E R file x st) =
   numberOfExcaliDraws st + (if is_drawing E file x then 1 else 0)"
  by (auto simp: transcludeMatch_def is_drawing_def embedTarget_def transcludeDrawing_def
        transcludeNote_def Let_def split: list.splits option.splits prod.splits)

lemma numberOfExcaliDraws_fold:
  "numberOfExcaliDraws (fold (transcludeMatch E R file) xs st) =
   numberOfExcaliDraws st + length (filter (is_drawing E file) xs)"
  by (induction xs arbitrary: st) (simp_all add: numberOfExcaliDraws_step)

lemma transcludeMatch_drawing_events:
  "embedTarget E file x = Some linkedFile \<Longrightarrow> js_endsWith (name linkedFile) ''.excalidraw.md'' \<Longrightarrow>
   cachedRead E linkedFile = Some fileText \<Longrightarrow>
   events (transcludeMatch E R file x st) =
   events st @ [CompileDrawing \<lparr>includeExcaliDrawJs = (numberOfExcaliDraws st = 0),
                                idAppendage = Some (show_nat (numberOfExcaliDraws st + 1)),
                                includeFrontMatter = Some False\<rparr> (path linkedFile)]"
  by (auto simp: transcludeMatch_def embedTarget_def transcludeDrawing_def Let_def
        split: list.splits option.splits)

text \<open>
  A vault whose note \<open>root\<close> embeds the drawing \<open>d1\<close>, the note \<open>note\<close> and the
  drawing \<open>d2\<close>; \<open>note\<close> embeds the drawing \<open>d3\<close>.
\<close>

definition draw_env :: env where
  "draw_env = vault_env
     [(md ''root'', ''![[d1.excalidraw]] ![[note]] ![[d2.excalidraw]]''),
      (md ''note'', ''![[d3.excalidraw]]''),
      (drawing ''d1'', ''scene 1''), (drawing ''d2'', ''scene 2''), (drawing ''d3'', ''scene 3'')]
     (\<lambda>f. None) None"

text \<open>
  C7, as stated, fails. The compilation of \<open>root\<close> calls the drawing compiler three
  times, in this order: for \<open>d1\<close> with the support script and the suffix 1, for \<open>d3\<close>,
  which is embedded in the transcluded \<open>note\<close>, again with the support script and again
  with the suffix 1, and for \<open>d2\<close> without the script and with the suffix 2. Two
  drawings of one compilation get the script, and two get the same suffix.
\<close>

theorem generateMarkdown_drawing_counter_counterexample:
  \<open>map_option snd (generateMarkdown draw_env (md ''root'')) =
     Some [CompileDrawing \<lparr>includeExcaliDrawJs = True, idAppendage = Some ''1'',
                            includeFrontMatter = Some False\<rparr> ''d1.excalidraw.md'',
           CompileDrawing \<lparr>includeExcaliDrawJs = True, idAppendage = Some ''1'',
                            includeFrontMatter = Some False\<rparr> ''d3.excalidraw.md'',
           CompileDrawing \<lparr>includeExcaliDrawJs = False, idAppendage = Some ''2'',
                            includeFrontMatter = Some False\<rparr> ''d2.excalidraw.md'']\<close>
  by code_simp

text \<open>
  C7, amended: the counter belongs to one call of the transclusion resolver, that is to
  one text at one depth. Every call below depth 4 starts its loop with the counter at 0,
  also the calls for the transcluded notes one level deeper. Within the loop of a call,
  after any embeds \<open>pre\<close> the counter is the number of the embeds among them whose
  target is a drawing, \<open>k\<close>; for a next embed whose target is a drawing that can be read,
  the drawing compiler is called with the suffix \<open>k + 1\<close>, and with the support script
  if and only if \<open>k = 0\<close>.
\<close>

theorem createTranscludedText_drawing_counter:
  \<open>(d < 4 \<longrightarrow>
      createTranscludedText E d file text =
        (let st = fold (transcludeMatch E (createTranscludedText E (d + 1)) file)
                    (js_match text transcludedRegex)
                    \<lparr>transcludedText = text, numberOfExcaliDraws = 0, events = []\<rparr>
         in (transcludedText st, events st))) \<and>
   (embedTarget E file x = Some linkedFile \<and> js_endsWith (name linkedFile) ''.excalidraw.md'' \<and>
    cachedRead E linkedFile = Some fileText \<longrightarrow>
      (let st = fold (transcludeMatch E R file) pre
                  \<lparr>transcludedText = text', numberOfExcaliDraws = 0, events = ev\<rparr>;
           k = length (filter (is_drawing E file) pre)
       in numberOfExcaliDraws st = k \<and>
          events (transcludeMatch E R file x st) =
            events st @
            [CompileDrawing \<lparr>includeExcaliDrawJs = (k = 0),
                              idAppendage = Some (show_nat (k + 1)),
                              includeFrontMatter = Some False\<rparr> (path linkedFile)]))\<close>
proof (intro conjI impI)
  assume "d < 4"
  then show \<open>createTranscludedText E d file text =
        (let st = fold (transcludeMatch E (createTranscludedText E (d + 1)) file)
                    (js_match text transcludedRegex)
                    \<lparr>transcludedText = text, numberOfExcaliDraws = 0, events = []\<rparr>
         in (transcludedText st, events st))\<close>
    by (rule createTranscludedText_unfold) simp
next
  assume a: \<open>embedTarget E file x = Some linkedFile \<and>
    js_endsWith (name linkedFile) ''.excalidraw.md'' \<and> cachedRead E linkedFile = Some fileText\<close>
  define st where
    \<open>st = fold (transcludeMatch E R file) pre
            \<lparr>transcludedText = text', numberOfExcaliDraws = 0, events = ev\<rparr>\<close>
  have k: \<open>numberOfExcaliDraws st = length (filter (is_drawing E file) pre)\<close>
    by (simp add: st_def numberOfExcaliDraws_fold)
  from a have \<open>events (transcludeMatch E R file x st) =
      events st @ [CompileDrawing \<lparr>includeExcaliDrawJs = (numberOfExcaliDraws st = 0),
                                   idAppendage = Some (show_nat (numberOfExcaliDraws st + 1)),
                                   includeFrontMatter = Some False\<rparr> (path linkedFile)]\<close>
    by (intro transcludeMatch_drawing_events) simp_all
  with k show \<open>let st = fold (transcludeMatch E R file) pre
                  \<lparr>transcludedText = text', numberOfExcaliDraws = 0, events = ev\<rparr>;
           k = length (filter (is_drawing E file) pre)
       in numberOfExcaliDraws st = k \<and>
          events (transcludeMatch E R file x st) =
            events st @
            [CompileDrawing \<lparr>includeExcaliDrawJs = (k = 0),
                              idAppendage = Some (show_nat (k + 1)),
                              includeFrontMatter = Some False\<rparr> (path linkedFile)]\<close>
    by (simp add: st_def Let_def)
qed

theorem createTranscludedText_drawing_counter_witness:
  \<open>(0::nat) < 4 \<and>
   embedTarget draw_env (md ''root'') ''![[d2.excalidraw]]'' = Some (drawing ''d2'') \<and>
   js_endsWith (name (drawing ''d2'')) ''.excalidraw.md'' \<and>
   cachedRead draw_env (drawing ''d2'') = Some ''scene 2'' \<and>
   length (filter (is_drawing draw_env (md ''root'')) [''![[d1.excalidraw]]'', ''![[note]]'']) = 1 \<and>
   events (transcludeMatch draw_env (createTranscludedText draw_env 1) (md ''root'')
             ''![[d2.excalidraw]]''
             (fold (transcludeMatch draw_env (createTranscludedText draw_env 1) (md ''root''))
                [''![[d1.excalidraw]]'', ''![[note]]'']
                \<lparr>transcludedText = ''![[d1.excalidraw]] ![[note]] ![[d2.excalidraw]]'',
                   numberOfExcaliDraws = 0, events = []\<rparr>)) =
   events (fold (transcludeMatch draw_env (createTranscludedText draw_env 1) (md ''root''))
             [''![[d1.excalidraw]]'', ''![[note]]'']
             \<lparr>transcludedText = ''![[d1.excalidraw]] ![[note]] ![[d2.excalidraw]]'',
                numberOfExcaliDraws = 0, events = []\<rparr>) @
   [CompileDrawing \<lparr>includeExcaliDrawJs = False, idAppendage = Some ''2'',
                     includeFrontMatter = Some False\<rparr> ''d2.excalidraw.md'']\<close>
proof -
  have t: \<open>embedTarget draw_env (md ''root'') ''![[d2.excalidraw]]'' = Some (drawing ''d2'')\<close>
    by code_simp
  have n: \<open>js_endsWith (name (drawing ''d2'')) ''.excalidraw.md''\<close>
    by code_simp
  have r: \<open>cachedRead draw_env (drawing ''d2'') = Some ''scene 2''\<close>
    by code_simp
  have k: \<open>length (filter (is_drawing draw_env (md ''root''))
                     [''![[d1.excalidraw]]'', ''![[note]]'']) = 1\<close>
    by code_simp
  have s: \<open>show_nat (1 + 1) = ''2''\<close>
    by code_simp
  have p: \<open>path (drawing ''d2'') = ''d2.excalidraw.md''\<close>
    by (simp add: drawing_def)
  from createTranscludedText_drawing_counter
         [of 0 draw_env "md ''root''" undefined "''![[d2.excalidraw]]''" "drawing ''d2''"
             "''scene 2''" "createTranscludedText draw_env 1"
             "[''![[d1.excalidraw]]'', ''![[note]]'']"
             "''![[d1.excalidraw]] ![[note]] ![[d2.excalidraw]]''" "[]"]
       t n r
  have \<open>let st = fold (transcludeMatch draw_env (createTranscludedText draw_env 1) (md ''root''))
                  [''![[d1.excalidraw]]'', ''![[note]]'']
                  \<lparr>transcludedText = ''![[d1.excalidraw]] ![[note]] ![[d2.excalidraw]]'',
                     numberOfExcaliDraws = 0, events = []\<rparr>;
           k = length (filter (is_drawing draw_env (md ''root''))
                         [''![[d1.excalidraw]]'', ''![[note]]''])
       in numberOfExcaliDraws st = k \<and>
          events (transcludeMatch draw_env (createTranscludedText draw_env 1) (md ''root'')
                    ''![[d2.excalidraw]]'' st) =
            events st @
            [CompileDrawing \<lparr>includeExcaliDrawJs = (k = 0),
                              idAppendage = Some (show_nat (k + 1)),
                              includeFrontMatter = Some False\<rparr> (path (drawing ''d2''))]\<close>
    by blast
  then have \<open>events (transcludeMatch draw_env (createTranscludedText draw_env 1) (md ''root'')
             ''![[d2.excalidraw]]''
             (fold (transcludeMatch draw_env (createTranscludedText draw_env 1) (md ''root''))
                [''![[d1.excalidraw]]'', ''![[note]]'']
                \<lparr>transcludedText = ''![[d1.excalidraw]] ![[note]] ![[d2.excalidraw]]'',
                   numberOfExcaliDraws = 0, events = []\<rparr>)) =
   events (fold (transcludeMatch draw_env (createTranscludedText draw_env 1) (md ''root''))
             [''![[d1.excalidraw]]'', ''![[note]]'']
             \<lparr>transcludedText = ''![[d1.excalidraw]] ![[note]] ![[d2.excalidraw]]'',
                numberOfExcaliDraws = 0, events = []\<rparr>) @
   [CompileDrawing \<lparr>includeExcaliDrawJs = False, idAppendage = Some ''2'',
                     includeFrontMatter = Some False\<rparr> ''d2.excalidraw.md'']\<close>
    unfolding Let_def k s p by simp
  with t n r k show ?thesis by simp
qed

section \<open>Facts about the string operations\<close>

lemma js_indexOf_iff_sublist: "0 \<le> js_indexOf s pat \<longleftrightarrow> sublist pat s"
  by (induction s) (auto simp: sublist_Cons_right Let_def)

lemma js_includes_iff_sublist: "js_includes s pat \<longleftrightarrow> sublist pat s"
  by (simp add: js_includes_def js_indexOf_iff_sublist)

lemma js_indexOf_split:
  "0 \<le> js_indexOf s pat \<Longrightarrow>
   s = take (nat (js_indexOf s pat)) s @ pat @ drop (nat (js_indexOf s pat) + length pat) s"
proof (induction s)
  case Nil
  then show ?case by (simp split: if_splits)
next
  case (Cons c cs)
  show ?case
  proof (cases "prefix pat (c # cs)")
    case True
    then obtain r where r: "c # cs = pat @ r" by (auto simp: prefix_def)
    from True have "js_indexOf (c # cs) pat = 0" by simp
    with r show ?thesis by simp
  next
    case False
    with Cons.prems have i: "0 \<le> js_indexOf cs pat"
      by (simp add: Let_def split: if_splits)
    with False have "js_indexOf (c # cs) pat = js_indexOf cs pat + 1"
      by (simp add: Let_def)
    moreover from i have "nat (js_indexOf cs pat + 1) = Suc (nat (js_indexOf cs pat))"
      by simp
    ultimately show ?thesis using Cons.IH [OF i] by simp
  qed
qed


lemma js_replace_remove:
  assumes "js_includes s pat"
  shows "\<exists>a b. s = a @ pat @ b \<and> js_replace s pat [] = a @ b"
proof -
  from assms have i: "0 \<le> js_indexOf s pat" by (simp add: js_includes_def)
  let ?a = "take (nat (js_indexOf s pat)) s"
  let ?b = "drop (nat (js_indexOf s pat) + length pat) s"
  from i have "s = ?a @ pat @ ?b" by (rule js_indexOf_split)
  moreover from i have "js_replace s pat [] = ?a @ ?b"
    by (simp add: js_replace_def Let_def)
  ultimately show ?thesis by blast
qed



section \<open>A query that throws\<close>

text \<open>
  A vault whose note \<open>q\<close> has a query block between two lines of text, and a Dataview
  plugin all of whose calls throw.
\<close>

definition failing_dv :: DataviewApi where
  "failing_dv =
     \<lparr>dataviewJsKeyword = ''dataviewjs'', inlineQueryPrefix = ''='', inlineJsQueryPrefix = ''$='',
      tryQueryMarkdown = (\<lambda>query p. None), executeJs = (\<lambda>query p. None),
      tryEvaluate = (\<lambda>query. None)\<rparr>"

definition dv_env :: env where
  \<open>dv_env = vault_env
     [(md ''q'', ''intro\<newline>```dataview\<newline>LIST\<newline>```\<newline>outro'')]
     (\<lambda>f. None) (Some failing_dv)\<close>

text \<open>
  C3 (a defect of the code). When the evaluation of a query block throws,
  \<^verbatim>\<open>convertDataViews\<close> shows the notice, but the \<^verbatim>\<open>return queryBlock[0]\<close> of the
  \<^verbatim>\<open>catch\<close> block ends the whole pass with the text of the block as its result. The
  lines \<^verbatim>\<open>intro\<close> and \<^verbatim>\<open>outro\<close> around the block are lost, in the result of the
  pass and in the compiled text of \<^verbatim>\<open>generateMarkdown\<close>.
\<close>

theorem convertDataViews_failing_query:
  \<open>convertDataViews dv_env (md ''q'')
     ''intro\<newline>```dataview\<newline>LIST\<newline>```\<newline>outro'' =
     (''```dataview\<newline>LIST\<newline>```'', [Notice (dataview_notice ''dataview'')]) \<and>
   generateMarkdown dv_env (md ''q'') =
     Some ((''```dataview\<newline>LIST\<newline>```'', []), [Notice (dataview_notice ''dataview'')])\<close>
  by code_simp

section \<open>The rewrite of an embedded image\<close>

lemma parseInt_isNaN_empty: "parseInt_isNaN (Some [])"
  by (simp add: parseInt_isNaN_def)

text \<open>
  The step of the first loop for a match whose target exists and can be read: the asset is
  added, and the first occurrence of the match is replaced by the image reference, whose
  text keeps the tokens only when the last one parses as an integer.
\<close>

lemma convertTranscludedImage_resolved:
  assumes "insideBrackets x = imageName # tokens"
    and "getFirstLinkpathDest E (getLinkpath E imageName) filePath = Some linkedFile"
    and "readBinary E linkedFile = Some imageData"
  shows "convertTranscludedImage E filePath x (imageText, assets) =
    (js_replace imageText x
       (''!['' @
        (if tokens \<noteq> [] \<and> \<not> parseInt_isNaN (Some (last tokens)) then
           (if js_join (butlast tokens) '' '' = [] then imageName @ ''|'' @ last tokens
            else imageName @ ''|'' @ js_join (butlast tokens) '' '' @ ''|'' @ last tokens)
         else imageName) @
        '']('' @ encodeURI (''/img/user/'' @ path linkedFile) @ '')''),
     assets @ [\<lparr>asset_path = ''/img/user/'' @ path linkedFile,
                 asset_content = arrayBufferToBase64 E imageData\<rparr>])"
proof -
  have b: "js_slice tokens 0 (Some (length tokens - Suc 0)) = butlast tokens"
    by (simp add: js_slice_def butlast_conv_take)
  have e: "length tokens \<le> Suc 0 \<Longrightarrow> js_join (butlast tokens) '' '' = []"
    by (cases tokens) auto
  have n: "\<not> parseInt_isNaN (Some (last tokens)) \<Longrightarrow> last tokens \<noteq> []"
    using parseInt_isNaN_empty by auto
  show ?thesis
    using assms n e
    by (auto simp: convertTranscludedImage_def Let_def b not_less)
qed

text \<open>
  A vault with the images \<open>assets/pic.png\<close>, \<open>img/a.png\<close>, \<open>img/b.png\<close> and
  \<open>my pics/p.png\<close>.
\<close>

definition img_env :: env where
  "img_env = vault_env
     [(md ''n'', ''![[pic.png|200]]''),
      (file_in ''assets'' ''pic'' ''png'', ''PNGDATA''),
      (file_in ''img'' ''a'' ''png'', ''DATA-A''),
      (file_in ''img'' ''b'' ''png'', ''DATA-B''),
      (file_in ''my pics'' ''p'' ''png'', ''DATA-P'')]
     (\<lambda>f. None) None"

text \<open>
  C4. The example of the specification comes out as it says: \<^verbatim>\<open>![[pic.png|200]]\<close>
  becomes \<^verbatim>\<open>![pic.png|200](/img/user/assets/pic.png)\<close> with the asset of
  \<open>assets/pic.png\<close>. But \<^verbatim>\<open>convertImageLinks\<close> does not do this for every embedded
  image whose target exists.

  \<^item> In \<^verbatim>\<open>![[a.png]] and ![[b.png|100]]\<close> the regular expression of the first loop
    has one match, the whole text: its first alternative wants a \<^verbatim>\<open>|\<close> after the
    extension and runs over \<^verbatim>\<open>]]\<close> to find the one of the second embed. The loop
    takes the name \<^verbatim>\<open>a.png\<close> out of this match and replaces the match, so the embed
    of \<open>b.png\<close>, which resolves (and is rewritten with its asset when it stands
    alone), gets no asset, and its markup is gone from the text.
  \<^item> In \<^verbatim>\<open>![[a.png|alt text]]\<close> the last token is no integer. The loop appends it to
    the metadata and then writes the name of the image alone, as there is no size: the
    token \<^verbatim>\<open>alt text\<close> is gone, while the second loop keeps it for
    \<^verbatim>\<open>![alt text](img/a.png)\<close>.
\<close>

theorem convertImageLinks_failing_inputs:
  \<open>convertImageLinks img_env ''![[pic.png|200]]'' ''n.md'' =
     (''![pic.png|200](/img/user/assets/pic.png)'',
      [\<lparr>asset_path = ''/img/user/assets/pic.png'',
         asset_content = arrayBufferToBase64 img_env ''PNGDATA''\<rparr>]) \<and>
   js_match ''![[a.png]] and ![[b.png|100]]'' transcludedImageRegex =
     [''![[a.png]] and ![[b.png|100]]''] \<and>
   insideBrackets ''![[a.png]] and ![[b.png|100]]'' = [''a.png''] \<and>
   getFirstLinkpathDest img_env (getLinkpath img_env ''b.png'') ''n.md'' =
     Some (file_in ''img'' ''b'' ''png'') \<and>
   convertImageLinks img_env ''![[a.png]] and ![[b.png|100]]'' ''n.md'' =
     (''![a.png](/img/user/img/a.png)'',
      [\<lparr>asset_path = ''/img/user/img/a.png'',
         asset_content = arrayBufferToBase64 img_env ''DATA-A''\<rparr>]) \<and>
   convertImageLinks img_env ''![[b.png|100]]'' ''n.md'' =
     (''![b.png|100](/img/user/img/b.png)'',
      [\<lparr>asset_path = ''/img/user/img/b.png'',
         asset_content = arrayBufferToBase64 img_env ''DATA-B''\<rparr>]) \<and>
   insideBrackets ''![[a.png|alt text]]'' = [''a.png'', ''alt text''] \<and>
   convertImageLinks img_env ''![[a.png|alt text]]'' ''n.md'' =
     (''![a.png](/img/user/img/a.png)'',
      [\<lparr>asset_path = ''/img/user/img/a.png'',
         asset_content = arrayBufferToBase64 img_env ''DATA-A''\<rparr>]) \<and>
   convertImageLinks img_env ''![alt text](img/a.png)'' ''n.md'' =
     (''![alt text](/img/user/img/a.png)'',
      [\<lparr>asset_path = ''/img/user/img/a.png'',
         asset_content = arrayBufferToBase64 img_env ''DATA-A''\<rparr>])\<close>
  by code_simp

text \<open>
  Metadata is kept together with a size, and the second loop rewrites
  \<^verbatim>\<open>![pic.png|200](assets/pic.png)\<close> like the first \<^verbatim>\<open>![[pic.png|200]]\<close>. The second
  loop writes the path as it is, the first one with \<^verbatim>\<open>encodeURI\<close>.
\<close>

lemma convertImageLinks_examples:
  \<open>convertImageLinks img_env ''![[pic.png|cover wide|200]]'' ''n.md'' =
     (''![pic.png|cover wide|200](/img/user/assets/pic.png)'',
      [\<lparr>asset_path = ''/img/user/assets/pic.png'',
         asset_content = arrayBufferToBase64 img_env ''PNGDATA''\<rparr>]) \<and>
   convertImageLinks img_env ''![pic.png|200](assets/pic.png)'' ''n.md'' =
     (''![pic.png|200](/img/user/assets/pic.png)'',
      [\<lparr>asset_path = ''/img/user/assets/pic.png'',
         asset_content = arrayBufferToBase64 img_env ''PNGDATA''\<rparr>]) \<and>
   convertImageLinks img_env ''![[p.png]]'' ''n.md'' =
     (''![p.png](/img/user/my%20pics/p.png)'',
      [\<lparr>asset_path = ''/img/user/my pics/p.png'',
         asset_content = arrayBufferToBase64 img_env ''DATA-P''\<rparr>]) \<and>
   convertImageLinks img_env ''![x](my pics/p.png)'' ''n.md'' =
     (''![x](/img/user/my pics/p.png)'',
      [\<lparr>asset_path = ''/img/user/my pics/p.png'',
         asset_content = arrayBufferToBase64 img_env ''DATA-P''\<rparr>])\<close>
  by code_simp

section \<open>The slice of a transclusion\<close>











text \<open>
  An id that is no block of the cache but the name of a property of
  \<^verbatim>\<open>Object.prototype\<close> makes the block branch throw; any other id that is no block
  leaves the whole text of the target.
\<close>

lemma transcludeBlock_inherited:
  assumes "metadata = Some cm" "blocks cm = Some bs" "bs refBlock = None"
    and "refBlock \<in> set object_prototype_keys"
  shows "transcludeBlock fileText metadata refBlock = None"
  using assms by (simp add: transcludeBlock_def object_get_def)

lemma transcludeBlock_no_block:
  assumes "metadata = Some cm" "blocks cm = Some bs" "bs refBlock = None"
    and "refBlock \<notin> set object_prototype_keys"
  shows "transcludeBlock fileText metadata refBlock = Some fileText"
  using assms by (simp add: transcludeBlock_def object_get_def)








text \<open>
  A vault whose note \<open>target\<close> has the lines \<^verbatim>\<open>a\<close>, \<^verbatim>\<open>^blk: content\<close> and
  \<^verbatim>\<open>b\<close>, and whose cache has the block \<open>blk\<close> on the second line; \<open>root\<close> embeds
  the block.
\<close>

definition block_text :: string where
  \<open>block_text = ''a\<newline>^blk: content\<newline>b''\<close>

definition block_cache :: CachedMetadata where
  "block_cache =
     \<lparr>blocks = Some (map_of [(''blk'', \<lparr>start_line = 1, end_line = 1\<rparr>)]),
      headings = None, frontmatter = None\<rparr>"

definition block_env :: env where
  "block_env = vault_env
     [(md ''root'', ''![[target#^blk]]''), (md ''target'', block_text)]
     (\<lambda>f. if f = md ''target'' then Some block_cache else None) None"




text \<open>
  The cache of \<open>target\<close> has no block \<open>constructor\<close>, but every plain object has a
  property of this name: for \<^verbatim>\<open>![[target#^constructor]]\<close> the block branch throws, and
  the embed stays as it is.
\<close>

lemma transcludeBlock_inherited_example:
  \<open>transcludeBlock block_text (Some block_cache) ''constructor'' = None \<and>
   transcludeBlock block_text (Some block_cache) ''other'' = Some block_text \<and>
   createTranscludedText block_env 0 (md ''root'') ''![[target#^constructor]]'' =
     (''![[target#^constructor]]'', [])\<close>
  by code_simp

section \<open>Comments and protected regions\<close>

text \<open>
  A comment is protected in a text when it is part of a match of one of the three
  expressions for code blocks, inline code and drawings on that text: the test of the loop
  of \<^verbatim>\<open>removeObsidianComments\<close>.
\<close>

definition is_protected :: "env \<Rightarrow> string \<Rightarrow> string \<Rightarrow> bool" where
  "is_protected E text commentMatch =
     (list_ex (\<lambda>x. js_includes x commentMatch) (js_match text (CODEBLOCK_REGEX E)) \<or>
      list_ex (\<lambda>x. js_includes x commentMatch) (js_match text (CODE_FENCE_REGEX E)) \<or>
      list_ex (\<lambda>x. js_includes x commentMatch) (js_match text (EXCALIDRAW_REGEX E)))"

text \<open>The text and the match of a piece; the matches of a list of pieces.\<close>

fun piece_text :: "piece \<Rightarrow> string" where
  "piece_text (Lit c) = [c]"
| "piece_text (Match m g) = m"

fun piece_match :: "piece \<Rightarrow> string list" where
  "piece_match (Lit c) = []"
| "piece_match (Match m g) = [m]"

definition piece_matches :: "piece list \<Rightarrow> string list" where
  "piece_matches ps = concat (map piece_match ps)"

lemma piece_match_case: "(\<lambda>pc. case pc of Lit c \<Rightarrow> [] | Match m g \<Rightarrow> [m]) = piece_match"
  by (rule ext) (simp split: piece.splits)

lemma rx_pieces_flat: "concat (map piece_text (rx_pieces r p s)) = s"
proof (induction r p s rule: rx_pieces.induct)
  case (1 r p s)
  show ?case
  proof (cases "rx_exec r p s")
    case None
    show ?thesis
    proof (cases s)
      case Nil
      with None show ?thesis by (subst rx_pieces.simps) simp
    next
      case (Cons c cs)
      with None 1(1) [OF None Cons] show ?thesis
        by (subst rx_pieces.simps) simp
    qed
  next
    case (Some mg)
    obtain m g where mg: "mg = (m, g)" by (cases mg)
    show ?thesis
    proof (cases "m = []")
      case True
      show ?thesis
      proof (cases s)
        case Nil
        with Some mg True show ?thesis by (subst rx_pieces.simps) simp
      next
        case (Cons c cs)
        with Some mg True 1(2) [OF Some mg [symmetric] True Cons] show ?thesis
          by (subst rx_pieces.simps) simp
      qed
    next
      case False
      from Some mg have "m = take (length m) s" by (intro rx_exec_take) simp
      then have "m @ drop (length m) s = s" by (metis append_take_drop_id)
      with Some mg False 1(3) [OF Some mg [symmetric] False] show ?thesis
        by (subst rx_pieces.simps) simp
    qed
  qed
qed

lemma js_match_pieces: "js_match s r = piece_matches (rx_pieces r None s)"
  by (simp add: js_match_def piece_matches_def piece_match_case)

lemma piece_matches_sublist:
  "m \<in> set (piece_matches ps) \<Longrightarrow> sublist m (concat (map piece_text ps))"
proof (induction ps)
  case Nil
  then show ?case by (simp add: piece_matches_def)
next
  case (Cons pc ps)
  show ?case
  proof (cases pc)
    case (Lit c)
    with Cons have "sublist m (concat (map piece_text ps))"
      by (simp add: piece_matches_def)
    then show ?thesis by (simp add: sublist_append)
  next
    case (Match m' g)
    show ?thesis
    proof (cases "m = m'")
      case True
      with Match show ?thesis by simp
    next
      case False
      with Cons Match have "sublist m (concat (map piece_text ps))"
        by (simp add: piece_matches_def)
      then show ?thesis by (simp add: sublist_append)
    qed
  qed
qed

lemma js_match_sublist: "m \<in> set (js_match s r) \<Longrightarrow> sublist m s"
  using piece_matches_sublist [of m "rx_pieces r None s"]
  by (simp add: js_match_pieces rx_pieces_flat)

lemma removeObsidianComments_fold:
  "removeObsidianComments E text =
     fold (\<lambda>c t. if is_protected E text c then t else js_replace t c [])
       (js_match text obsidianCommentsRegex) text"
  unfolding removeObsidianComments_def Let_def is_protected_def
  by (rule fold_cong) auto

lemma removeObsidianComments_protected:
  assumes "\<And>c. c \<in> set (js_match text obsidianCommentsRegex) \<Longrightarrow> is_protected E text c"
  shows "removeObsidianComments E text = text"
  unfolding removeObsidianComments_fold
  by (rule fold_unchanged) (simp add: assms)

lemma removeObsidianComments_single:
  assumes "js_match text obsidianCommentsRegex = [c]" and "\<not> is_protected E text c"
  shows "\<exists>a b. text = a @ c @ b \<and> removeObsidianComments E text = a @ b"
proof -
  from assms(1) have "sublist c text"
    using js_match_sublist [of c "text" obsidianCommentsRegex] by simp
  then have "js_includes text c" by (simp add: js_includes_iff_sublist)
  then obtain a b where "text = a @ c @ b" "js_replace text c [] = a @ b"
    using js_replace_remove by blast
  with assms show ?thesis by (auto simp: removeObsidianComments_fold)
qed

lemma js_indexOf_le:
  "0 \<le> js_indexOf (X @ m @ S) m \<and> js_indexOf (X @ m @ S) m \<le> int (length X)"
proof (induction X)
  case Nil
  show ?case
  proof (cases "m @ S")
    case Nil
    then show ?thesis by simp
  next
    case (Cons c cs)
    moreover have "prefix m (m @ S)" by simp
    ultimately show ?thesis by simp
  qed
next
  case (Cons x X)
  then show ?case by (auto simp: Let_def)
qed

lemma js_replace_keeps_suffix:
  "\<exists>X'. js_replace (X @ m @ S) m [] = X' @ S \<and> length X' = length X"
proof -
  let ?T = "X @ m @ S"
  let ?i = "nat (js_indexOf ?T m)"
  from js_indexOf_le [of X m S] have i: "0 \<le> js_indexOf ?T m" "?i \<le> length X"
    by auto
  then have r: "js_replace ?T m [] = take ?i ?T @ drop (?i + length m) ?T"
    by (simp add: js_replace_def Let_def)
  from i have d: "drop (?i + length m) ?T = drop (?i + length m) (X @ m) @ S"
    by simp
  from i have t: "take ?i ?T = take ?i X" by simp
  have "js_replace ?T m [] = (take ?i X @ drop (?i + length m) (X @ m)) @ S"
    by (simp only: r d t append_assoc)
  moreover from i have "length (take ?i X @ drop (?i + length m) (X @ m)) = length X"
    by simp
  ultimately show ?thesis by blast
qed

lemma fold_remove_length:
  "length (fold (\<lambda>c t. if P c then t else js_replace t c []) (piece_matches ps)
             (X @ concat (map piece_text ps))) +
   sum_list (map length (filter (\<lambda>c. \<not> P c) (piece_matches ps))) =
   length X + length (concat (map piece_text ps))"
proof (induction ps arbitrary: X)
  case Nil
  then show ?case by (simp add: piece_matches_def)
next
  case (Cons pc ps)
  let ?S = "concat (map piece_text ps)"
  show ?case
  proof (cases pc)
    case (Lit c)
    then have "piece_matches (pc # ps) = piece_matches ps"
      and "X @ concat (map piece_text (pc # ps)) = (X @ [c]) @ ?S"
      by (simp_all add: piece_matches_def)
    with Cons [of "X @ [c]"] Lit show ?thesis
      by simp
  next
    case (Match m g)
    then have pm: "piece_matches (pc # ps) = m # piece_matches ps"
      and fl: "X @ concat (map piece_text (pc # ps)) = X @ m @ ?S"
      by (simp_all add: piece_matches_def)
    show ?thesis
    proof (cases "P m")
      case True
      with Cons [of "X @ m"] pm fl Match show ?thesis
        by simp
    next
      case False
      obtain X' where "js_replace (X @ m @ ?S) m [] = X' @ ?S" "length X' = length X"
        using js_replace_keeps_suffix by blast
      with Cons [of X'] pm fl Match False show ?thesis
        by simp
    qed
  qed
qed

lemma removeObsidianComments_length:
  "length (removeObsidianComments E text) +
   sum_list (map length (filter (\<lambda>c. \<not> is_protected E text c)
                           (js_match text obsidianCommentsRegex))) =
   length text"
  using fold_remove_length [of "is_protected E text" "rx_pieces obsidianCommentsRegex None text" "[]"]
  by (simp add: removeObsidianComments_fold js_match_pieces rx_pieces_flat)

text \<open>A vault without files.\<close>

definition plain_env :: env where
  "plain_env = vault_env [] (\<lambda>f. None) None"

text \<open>
  C8, as stated, fails: a comment outside every protected region can survive. In
  \<^verbatim>\<open>`%%x%%` %%x%% end\<close> the only protected region is the inline code
  \<^verbatim>\<open>`%%x%%`\<close>. The second \<^verbatim>\<open>%%x%%\<close> stands outside it, but its text is part of
  that region, so the loop skips it as it skips the first, and the text comes out
  unchanged.
\<close>

theorem removeObsidianComments_outside_counterexample:
  \<open>js_match ''`%%x%%` %%x%% end'' obsidianCommentsRegex = [''%%x%%'', ''%%x%%''] \<and>
   js_match ''`%%x%%` %%x%% end'' (CODE_FENCE_REGEX plain_env) = [''`%%x%%`''] \<and>
   js_match ''`%%x%%` %%x%% end'' (CODEBLOCK_REGEX plain_env) = [] \<and>
   js_match ''`%%x%%` %%x%% end'' (EXCALIDRAW_REGEX plain_env) = [] \<and>
   removeObsidianComments plain_env ''`%%x%%` %%x%% end'' = ''`%%x%%` %%x%% end''\<close>
  by code_simp

text \<open>
  C8, amended: protection is a matter of the text of a comment, not of its place. The
  pass is the loop over the comments of the text that skips a comment when its text is
  part of a match of one of the three expressions on the text, and otherwise takes the
  first occurrence of the comment's text out of the running text. So a text all of whose
  comments are protected in this sense is unchanged; a text with one comment, not
  protected, loses exactly that span; and for every text the result is shorter than the
  text by the lengths of the comments that are not protected. In the example the comment
  in the fenced code block stays and the comment after the block is removed.
\<close>

theorem removeObsidianComments_textual:
  \<open>removeObsidianComments E text =
     fold (\<lambda>c t. if is_protected E text c then t else js_replace t c [])
       (js_match text obsidianCommentsRegex) text \<and>
   ((\<forall>c \<in> set (js_match text obsidianCommentsRegex). is_protected E text c) \<longrightarrow>
      removeObsidianComments E text = text) \<and>
   (js_match text obsidianCommentsRegex = [c] \<longrightarrow> \<not> is_protected E text c \<longrightarrow>
      (\<exists>a b. text = a @ c @ b \<and> removeObsidianComments E text = a @ b)) \<and>
   length (removeObsidianComments E text) +
     sum_list (map length (filter (\<lambda>c. \<not> is_protected E text c)
                             (js_match text obsidianCommentsRegex))) = length text \<and>
   removeObsidianComments plain_env ''```\<newline>%%x%%\<newline>``` %%y%% z'' =
     ''```\<newline>%%x%%\<newline>```  z''\<close>
proof (intro conjI impI)
  show \<open>removeObsidianComments E text =
     fold (\<lambda>c t. if is_protected E text c then t else js_replace t c [])
       (js_match text obsidianCommentsRegex) text\<close>
    by (rule removeObsidianComments_fold)
next
  assume \<open>\<forall>c \<in> set (js_match text obsidianCommentsRegex). is_protected E text c\<close>
  then show \<open>removeObsidianComments E text = text\<close>
    by (intro removeObsidianComments_protected) simp
next
  assume \<open>js_match text obsidianCommentsRegex = [c]\<close> \<open>\<not> is_protected E text c\<close>
  then show \<open>\<exists>a b. text = a @ c @ b \<and> removeObsidianComments E text = a @ b\<close>
    by (rule removeObsidianComments_single)
next
  show \<open>length (removeObsidianComments E text) +
     sum_list (map length (filter (\<lambda>c. \<not> is_protected E text c)
                             (js_match text obsidianCommentsRegex))) = length text\<close>
    by (rule removeObsidianComments_length)
next
  show \<open>removeObsidianComments plain_env ''```\<newline>%%x%%\<newline>``` %%y%% z'' =
     ''```\<newline>%%x%%\<newline>```  z''\<close>
    by code_simp
qed

theorem removeObsidianComments_textual_witness:
  \<open>js_match ''a %%x%% b'' obsidianCommentsRegex = [''%%x%%''] \<and>
   \<not> is_protected plain_env ''a %%x%% b'' ''%%x%%'' \<and>
   (\<exists>a b. ''a %%x%% b'' = a @ ''%%x%%'' @ b \<and>
          removeObsidianComments plain_env ''a %%x%% b'' = a @ b) \<and>
   js_match ''`%%x%%`'' obsidianCommentsRegex = [''%%x%%''] \<and>
   is_protected plain_env ''`%%x%%`'' ''%%x%%'' \<and>
   removeObsidianComments plain_env ''`%%x%%`'' = ''`%%x%%`''\<close>
proof -
  have m1: \<open>js_match ''a %%x%% b'' obsidianCommentsRegex = [''%%x%%'']\<close>
    by code_simp
  have p1: \<open>\<not> is_protected plain_env ''a %%x%% b'' ''%%x%%''\<close>
    by code_simp
  have m2: \<open>js_match ''`%%x%%`'' obsidianCommentsRegex = [''%%x%%'']\<close>
    by code_simp
  have p2: \<open>is_protected plain_env ''`%%x%%`'' ''%%x%%''\<close>
    by code_simp
  from removeObsidianComments_textual [of plain_env "''a %%x%% b''" "''%%x%%''"] m1 p1
  have 1: \<open>\<exists>a b. ''a %%x%% b'' = a @ ''%%x%%'' @ b \<and>
          removeObsidianComments plain_env ''a %%x%% b'' = a @ b\<close>
    by blast
  from m2 p2 have \<open>\<forall>c \<in> set (js_match ''`%%x%%`'' obsidianCommentsRegex).
      is_protected plain_env ''`%%x%%`'' c\<close>
    by simp
  with removeObsidianComments_textual [of plain_env "''`%%x%%`''" undefined]
  have 2: \<open>removeObsidianComments plain_env ''`%%x%%`'' = ''`%%x%%`''\<close>
    by blast
  from m1 p1 1 m2 p2 2 show ?thesis by blast
qed

section \<open>Running a pass twice\<close>

text \<open>
  A text is anchored when \<^verbatim>\<open>/ \^([\w\d-]+)/\<close> matches at its start: it starts with a
  space, a caret and a character of a block id. \<open>no_anchor\<close>: the text is anchored at
  none of its positions.
\<close>

definition anchored :: "string \<Rightarrow> bool" where
  "anchored s = (prefix '' ^'' s \<and>
                 (case drop 2 s of [] \<Rightarrow> False | w # _ \<Rightarrow> w \<in> set block_id_chars))"

fun no_anchor :: "string \<Rightarrow> bool" where
  "no_anchor [] = True"
| "no_anchor (c # cs) = (\<not> anchored (c # cs) \<and> no_anchor cs)"

lemma take_minus_dropWhile:
  "take (length xs - length (dropWhile P xs)) xs = takeWhile P xs"
proof -
  have "length (takeWhile P xs) + length (dropWhile P xs) = length xs"
    by (metis length_append takeWhile_dropWhile_id)
  then have "length xs - length (dropWhile P xs) = length (takeWhile P xs)" by simp
  then show ?thesis by (simp add: takeWhile_eq_take [symmetric])
qed

lemma ms_star_In:
  "\<exists>q more. ms (Star True (In cs)) (p, s, g) = (q, dropWhile (\<lambda>c. c \<in> set cs) s, g) # more"
proof (induction s arbitrary: p)
  case Nil
  then show ?case by simp
next
  case (Cons x xs)
  show ?case
  proof (cases "x \<in> set cs")
    case True
    from Cons [of "Some x"] obtain q more where
      "ms (Star True (In cs)) (Some x, xs, g) = (q, dropWhile (\<lambda>c. c \<in> set cs) xs, g) # more"
      by blast
    with True show ?thesis by (simp add: remaining_def)
  next
    case False
    then show ?thesis by simp
  qed
qed

lemma block_exec_none:
  assumes "\<not> anchored s"
  shows "rx_exec block_pattern p s = None"
proof (cases s)
  case Nil
  then show ?thesis by (simp add: rx_exec_def block_pattern_def)
next
  case s1: (Cons a s1)
  show ?thesis
  proof (cases s1)
    case Nil
    with s1 show ?thesis by (simp add: rx_exec_def block_pattern_def)
  next
    case s2: (Cons b s2)
    show ?thesis
    proof (cases s2)
      case Nil
      with s1 s2 show ?thesis by (simp add: rx_exec_def block_pattern_def)
    next
      case (Cons w rest)
      with s1 s2 assms have "a \<noteq> CHR '' '' \<or> b \<noteq> CHR ''^'' \<or> w \<notin> set block_id_chars"
        by (auto simp: anchored_def)
      with s1 s2 Cons show ?thesis
        by (auto simp: rx_exec_def block_pattern_def)
    qed
  qed
qed

lemma block_exec_some:
  assumes "anchored s"
  shows "\<exists>tw. rx_exec block_pattern p s = Some ('' ^'' @ tw, [(1, tw)]) \<and> tw \<noteq> [] \<and>
              set tw \<subseteq> set block_id_chars"
proof -
  let ?P = "\<lambda>c. c \<in> set block_id_chars"
  from assms obtain w rest where s: "s = CHR '' '' # CHR ''^'' # w # rest" and w: "?P w"
    by (auto simp: anchored_def prefix_def split: list.splits)
  obtain q more where st: "ms (Star True (In block_id_chars)) (Some w, rest, []) =
      (q, dropWhile ?P rest, []) # more"
    using ms_star_In by blast
  have le: "length (dropWhile ?P rest) \<le> length rest"
    by (rule length_dropWhile_le)
  have t: "take (length rest - length (dropWhile ?P rest)) rest = takeWhile ?P rest"
    by (rule take_minus_dropWhile)
  from le have c1: "take (Suc (length rest) - length (dropWhile ?P rest)) (w # rest) =
      w # takeWhile ?P rest"
    by (simp add: Suc_diff_le t)
  from le have c2: "take (Suc (Suc (Suc (length rest))) - length (dropWhile ?P rest))
      (CHR '' '' # CHR ''^'' # w # rest) = CHR '' '' # CHR ''^'' # w # takeWhile ?P rest"
    by (simp add: Suc_diff_le t)
  have "rx_exec block_pattern p s =
      Some ('' ^'' @ (w # takeWhile ?P rest), [(1, w # takeWhile ?P rest)])"
    using w by (simp add: rx_exec_def block_pattern_def s st set_group_def consumed_def
        remaining_def c1 c2 del: ms.simps(10))
  moreover have "set (w # takeWhile ?P rest) \<subseteq> set block_id_chars"
    using w by (auto dest: set_takeWhileD)
  ultimately show ?thesis by blast
qed

text \<open>
  The replacer of the second \<^verbatim>\<open>replace\<close> of \<^verbatim>\<open>createBlockIDs\<close>, and the text
  that a replacer gives for a piece.
\<close>

definition block_anchor :: "string \<Rightarrow> captures \<Rightarrow> string" where
  "block_anchor match g = [CHR 0x0A] @ ''{ #'' @ capture g 1 @ ''}'' @ [CHR 0x0A]"

fun render :: "(string \<Rightarrow> captures \<Rightarrow> string) \<Rightarrow> piece \<Rightarrow> string" where
  "render f (Lit c) = [c]"
| "render f (Match m g) = f m g"

lemma render_case: "(\<lambda>pc. case pc of Lit c \<Rightarrow> [c] | Match m g \<Rightarrow> f m g) = render f"
  by (rule ext) (simp split: piece.splits)

lemma js_replace_rx_render: "js_replace_rx s r f = concat (map (render f) (rx_pieces r None s))"
  by (simp add: js_replace_rx_def render_case)

lemma render_no_match:
  "piece_matches ps = [] \<Longrightarrow> concat (map (render f) ps) = concat (map piece_text ps)"
proof (induction ps)
  case Nil
  then show ?case by simp
next
  case (Cons pc ps)
  then show ?case by (cases pc) (simp_all add: piece_matches_def)
qed

lemma js_replace_rx_no_match: "js_match s r = [] \<Longrightarrow> js_replace_rx s r f = s"
  by (simp add: js_replace_rx_render js_match_pieces render_no_match rx_pieces_flat)

lemma anchored_Cons: "anchored (c # cs) \<Longrightarrow> c = CHR '' ''"
  by (simp add: anchored_def)

lemma no_anchor_append:
  "(\<forall>c\<in>set xs. c \<noteq> CHR '' '') \<Longrightarrow> no_anchor t \<Longrightarrow> no_anchor (xs @ t)"
  by (induction xs) (auto dest: anchored_Cons)

lemma id_chars_plain:
  "c \<in> set block_id_chars \<Longrightarrow> c \<noteq> CHR '' '' \<and> c \<noteq> CHR 0x0A"
  by (auto simp: block_id_chars_def word_chars_def digit_chars_def)

lemma pieces_anchored:
  assumes "anchored s"
  shows "\<exists>tw m g. rx_pieces block_pattern p s =
             Match m g # rx_pieces block_pattern (Some (last m)) (drop (length m) s) \<and>
           m \<noteq> [] \<and> block_anchor m g = [CHR 0x0A] @ ''{ #'' @ tw @ ''}'' @ [CHR 0x0A] \<and>
           set tw \<subseteq> set block_id_chars"
proof -
  from assms obtain tw where e: "rx_exec block_pattern p s = Some ('' ^'' @ tw, [(1, tw)])"
      and tw: "set tw \<subseteq> set block_id_chars"
    using block_exec_some by blast
  have "rx_pieces block_pattern p s =
      Match ('' ^'' @ tw) [(1, tw)] #
      rx_pieces block_pattern (Some (last ('' ^'' @ tw))) (drop (length ('' ^'' @ tw)) s)"
    by (subst rx_pieces.simps) (simp add: e)
  moreover have "block_anchor ('' ^'' @ tw) [(1, tw)] = [CHR 0x0A] @ ''{ #'' @ tw @ ''}'' @ [CHR 0x0A]"
    by (simp add: block_anchor_def capture_def)
  ultimately show ?thesis using tw by blast
qed

lemma pieces_not_anchored:
  assumes "\<not> anchored s"
  shows "rx_pieces block_pattern p s =
           (case s of [] \<Rightarrow> [] | c # cs \<Rightarrow> Lit c # rx_pieces block_pattern (Some c) cs)"
  by (subst rx_pieces.simps) (simp add: block_exec_none [OF assms])

lemma rendered_first:
  assumes "concat (map (render block_anchor) (rx_pieces block_pattern p s)) = x # r"
    and "x \<noteq> CHR 0x0A"
  shows "\<exists>cs. s = x # cs \<and> \<not> anchored s \<and>
           r = concat (map (render block_anchor) (rx_pieces block_pattern (Some x) cs))"
proof (cases "anchored s")
  case True
  then obtain tw m g where
    "rx_pieces block_pattern p s =
       Match m g # rx_pieces block_pattern (Some (last m)) (drop (length m) s)"
    "block_anchor m g = [CHR 0x0A] @ ''{ #'' @ tw @ ''}'' @ [CHR 0x0A]"
    using pieces_anchored by blast
  with assms show ?thesis by simp
next
  case False
  with assms show ?thesis
    by (cases s) (simp_all add: pieces_not_anchored)
qed

lemma rendered_no_anchor:
  "no_anchor (concat (map (render block_anchor) (rx_pieces block_pattern p s)))"
proof (induction s arbitrary: p rule: length_induct)
  case (1 s)
  show ?case
  proof (cases "anchored s")
    case True
    then obtain tw m g where
      ps: "rx_pieces block_pattern p s =
         Match m g # rx_pieces block_pattern (Some (last m)) (drop (length m) s)"
      and m: "m \<noteq> []"
      and f: "block_anchor m g = [CHR 0x0A] @ ''{ #'' @ tw @ ''}'' @ [CHR 0x0A]"
      and tw: "set tw \<subseteq> set block_id_chars"
      using pieces_anchored by blast
    from True have "s \<noteq> []" by (auto simp: anchored_def)
    with m have "length (drop (length m) s) < length s" by simp
    with 1 have ih: "no_anchor (concat (map (render block_anchor)
        (rx_pieces block_pattern (Some (last m)) (drop (length m) s))))"
      by blast
    let ?out = "concat (map (render block_anchor)
        (rx_pieces block_pattern (Some (last m)) (drop (length m) s)))"
    from ih have "no_anchor (CHR ''}'' # CHR 0x0A # ?out)"
      by (simp add: anchored_def)
    moreover from tw have "\<forall>c\<in>set tw. c \<noteq> CHR '' ''"
      using id_chars_plain by blast
    ultimately have "no_anchor (tw @ CHR ''}'' # CHR 0x0A # ?out)"
      by (intro no_anchor_append)
    then have "no_anchor (CHR 0x0A # CHR ''{'' # CHR '' '' # CHR ''#'' # tw @ CHR ''}'' # CHR 0x0A # ?out)"
      by (simp add: anchored_def)
    with ps f show ?thesis by simp
  next
    case False
    show ?thesis
    proof (cases s)
      case Nil
      with False show ?thesis by (simp add: pieces_not_anchored)
    next
      case (Cons c cs)
      let ?out = "concat (map (render block_anchor) (rx_pieces block_pattern (Some c) cs))"
      from Cons 1 have ih: "no_anchor ?out" by simp
      have "\<not> anchored (c # ?out)"
      proof
        assume a: "anchored (c # ?out)"
        then obtain w r where c: "c = CHR '' ''" and o: "?out = CHR ''^'' # w # r"
            and w: "w \<in> set block_id_chars"
          by (auto simp: anchored_def prefix_def split: list.splits)
        from o obtain cs1 where cs: "cs = CHR ''^'' # cs1"
            and r1: "w # r = concat (map (render block_anchor)
                        (rx_pieces block_pattern (Some CHR ''^'') cs1))"
          using rendered_first [of "Some c" cs "CHR ''^''" "w # r"] by auto
        from w have "w \<noteq> CHR 0x0A" using id_chars_plain by blast
        with r1 obtain cs2 where "cs1 = w # cs2"
          using rendered_first [of "Some CHR ''^''" cs1 w r] by auto
        with c cs w Cons have "anchored s" by (simp add: anchored_def)
        with False show False by contradiction
      qed
      with ih Cons False show ?thesis by (simp add: pieces_not_anchored)
    qed
  qed
qed

lemma no_anchor_pieces: "no_anchor t \<Longrightarrow> rx_pieces block_pattern p t = map Lit t"
proof (induction t arbitrary: p)
  case Nil
  then show ?case by (simp add: pieces_not_anchored anchored_def)
next
  case (Cons c cs)
  then show ?case by (simp add: pieces_not_anchored)
qed

lemma no_anchor_no_match: "no_anchor t \<Longrightarrow> js_match t block_pattern = []"
  by (simp add: js_match_pieces no_anchor_pieces piece_matches_def)

lemma createBlockIDs_render:
  "createBlockIDs text =
     js_replace_rx
       (js_replace_rx text complex_block_pattern
          (\<lambda>match g. ''{ #'' @ capture g 1 @ ''}'' @ [CHR 0x0A, CHR 0x0A]))
       block_pattern block_anchor"
proof -
  have "(\<lambda>match g. [CHR 0x0A] @ ''{ #'' @ capture g 1 @ ''}'' @ [CHR 0x0A]) = block_anchor"
    by (intro ext) (simp add: block_anchor_def)
  then show ?thesis by (simp add: createBlockIDs_def Let_def)
qed

lemma createBlockIDs_no_block_match: "js_match (createBlockIDs text) block_pattern = []"
  by (simp add: createBlockIDs_render js_replace_rx_render rendered_no_anchor no_anchor_no_match)

lemma createBlockIDs_twice:
  assumes "js_match (createBlockIDs text) complex_block_pattern = []"
  shows "createBlockIDs (createBlockIDs text) = createBlockIDs text"
proof -
  have "createBlockIDs (createBlockIDs text) =
      js_replace_rx (createBlockIDs text) block_pattern block_anchor"
    by (subst createBlockIDs_render) (simp add: js_replace_rx_no_match [OF assms])
  also have "\<dots> = createBlockIDs text"
    by (rule js_replace_rx_no_match) (rule createBlockIDs_no_block_match)
  finally show ?thesis .
qed

text \<open>
  C9, as stated, fails for both passes. Of two anchor lines that follow each other,
  \<^verbatim>\<open>createBlockIDs\<close> rewrites the first only, since the line break between them is part
  of the first match; a second run rewrites the other one. And
  \<^verbatim>\<open>removeObsidianComments\<close> can remove a comment that holds the backtick which
  protected a later comment; a second run then removes the later comment.
\<close>

theorem passes_twice_counterexample:
  \<open>createBlockIDs ''\<newline>^a\<newline>^b\<newline>'' = ''{ #a}\<newline>\<newline>^b\<newline>'' \<and>
   createBlockIDs (createBlockIDs ''\<newline>^a\<newline>^b\<newline>'') = ''{ #a}\<newline>{ #b}\<newline>\<newline>'' \<and>
   removeObsidianComments plain_env ''%%a`%% %%y%%`'' = '' %%y%%`'' \<and>
   removeObsidianComments plain_env (removeObsidianComments plain_env ''%%a`%% %%y%%`'') = '' `''\<close>
  by code_simp

text \<open>
  C9, amended. After \<^verbatim>\<open>createBlockIDs\<close> the expression for an anchor at the end of a
  line has no match in the text, whatever the text was; so a second run changes nothing
  when the expression for an anchor line has no match in the result of the first either.
  A second run of \<^verbatim>\<open>removeObsidianComments\<close> changes nothing when every comment that
  the first run has left is protected in the result of the first run.
\<close>

theorem passes_twice:
  \<open>js_match (createBlockIDs text) block_pattern = [] \<and>
   (js_match (createBlockIDs text) complex_block_pattern = [] \<longrightarrow>
      createBlockIDs (createBlockIDs text) = createBlockIDs text) \<and>
   ((\<forall>c \<in> set (js_match (removeObsidianComments E text) obsidianCommentsRegex).
        is_protected E (removeObsidianComments E text) c) \<longrightarrow>
      removeObsidianComments E (removeObsidianComments E text) = removeObsidianComments E text)\<close>
proof (intro conjI impI)
  show \<open>js_match (createBlockIDs text) block_pattern = []\<close>
    by (rule createBlockIDs_no_block_match)
next
  assume \<open>js_match (createBlockIDs text) complex_block_pattern = []\<close>
  then show \<open>createBlockIDs (createBlockIDs text) = createBlockIDs text\<close>
    by (rule createBlockIDs_twice)
next
  assume \<open>\<forall>c \<in> set (js_match (removeObsidianComments E text) obsidianCommentsRegex).
        is_protected E (removeObsidianComments E text) c\<close>
  then show \<open>removeObsidianComments E (removeObsidianComments E text) =
      removeObsidianComments E text\<close>
    by (intro removeObsidianComments_protected) simp
qed

theorem passes_twice_witness:
  \<open>createBlockIDs ''some text ^abc and more'' = ''some text\<newline>{ #abc}\<newline> and more'' \<and>
   js_match (createBlockIDs ''some text ^abc and more'') complex_block_pattern = [] \<and>
   createBlockIDs (createBlockIDs ''some text ^abc and more'') =
     createBlockIDs ''some text ^abc and more'' \<and>
   removeObsidianComments plain_env ''a %%x%% b `%%y%%`'' = ''a  b `%%y%%`'' \<and>
   js_match ''a  b `%%y%%`'' obsidianCommentsRegex = [''%%y%%''] \<and>
   is_protected plain_env ''a  b `%%y%%`'' ''%%y%%'' \<and>
   removeObsidianComments plain_env (removeObsidianComments plain_env ''a %%x%% b `%%y%%`'') =
     removeObsidianComments plain_env ''a %%x%% b `%%y%%`''\<close>
proof -
  have b: \<open>createBlockIDs ''some text ^abc and more'' = ''some text\<newline>{ #abc}\<newline> and more''\<close>
    by code_simp
  have c: \<open>js_match (createBlockIDs ''some text ^abc and more'') complex_block_pattern = []\<close>
    by code_simp
  from passes_twice [of "''some text ^abc and more''" undefined] c
  have 1: \<open>createBlockIDs (createBlockIDs ''some text ^abc and more'') =
     createBlockIDs ''some text ^abc and more''\<close>
    by blast
  have r: \<open>removeObsidianComments plain_env ''a %%x%% b `%%y%%`'' = ''a  b `%%y%%`''\<close>
    by code_simp
  have m: \<open>js_match ''a  b `%%y%%`'' obsidianCommentsRegex = [''%%y%%'']\<close>
    by code_simp
  have p: \<open>is_protected plain_env ''a  b `%%y%%`'' ''%%y%%''\<close>
    by code_simp
  from r m p have \<open>\<forall>c \<in> set (js_match (removeObsidianComments plain_env ''a %%x%% b `%%y%%`'')
                          obsidianCommentsRegex).
      is_protected plain_env (removeObsidianComments plain_env ''a %%x%% b `%%y%%`'') c\<close>
    by simp
  with passes_twice [of "''a %%x%% b `%%y%%`''" plain_env]
  have 2: \<open>removeObsidianComments plain_env
            (removeObsidianComments plain_env ''a %%x%% b `%%y%%`'') =
          removeObsidianComments plain_env ''a %%x%% b `%%y%%`''\<close>
    by blast
  from b c 1 r m p 2 show ?thesis by blast
qed

end
